theory Spec2Isabelle
  imports Complex_Main "HOL-Library.Product_Order" "HOL-Library.Word"
begin

section \<open>Spatial algebra kernel\<close>

text \<open>
  \<^verbatim>\<open>RigidBodyNode.cpp\<close> computes with the fixed-size vector and matrix types of the
  spatial algebra kernel (\<^verbatim>\<open>Vec3\<close>, \<^verbatim>\<open>Mat33\<close>, \<^verbatim>\<open>SpatialVec\<close>, \<^verbatim>\<open>SpatialMat\<close>,
  \<^verbatim>\<open>PhiMatrix\<close>), which are declared in headers. \<^verbatim>\<open>Real\<close> is modelled by the real
  numbers, so rounding is outside the model. A \<^verbatim>\<open>Vec3\<close> is a triple, a \<^verbatim>\<open>Mat33\<close> is
  the triple of its rows, a \<^verbatim>\<open>SpatialVec\<close> is the pair (angular part, linear part) and
  a \<^verbatim>\<open>SpatialMat\<close> is the 2-by-2 matrix of its \<^verbatim>\<open>Mat33\<close> blocks, row by row. Sums,
  differences, negation and zero are componentwise.
\<close>

type_synonym Vec3 = "real \<times> real \<times> real"
type_synonym Vec4 = "real \<times> real \<times> real \<times> real"
type_synonym Mat33 = "Vec3 \<times> Vec3 \<times> Vec3"
type_synonym SpatialVec = "Vec3 \<times> Vec3"
type_synonym SpatialRow = "Vec3 \<times> Vec3"
type_synonym SpatialMat = "(Mat33 \<times> Mat33) \<times> (Mat33 \<times> Mat33)"
type_synonym PhiMatrix = Vec3
type_synonym Transform = "Mat33 \<times> Vec3"

text \<open>Modelled from the spec: the operator \<^verbatim>\<open>%\<close> on two \<^verbatim>\<open>Vec3\<close>, the cross product
  (section 4.1, "cross-product operators"); the kernel's headers are not part of the file.\<close>
fun cross :: "Vec3 \<Rightarrow> Vec3 \<Rightarrow> Vec3" where
  "cross (a1, a2, a3) (b1, b2, b3) = (a2 * b3 - a3 * b2, a3 * b1 - a1 * b3, a1 * b2 - a2 * b1)"

text \<open>Modelled from the spec: the dot product of two \<^verbatim>\<open>Vec3\<close> (section 4.1).\<close>
fun dot3 :: "Vec3 \<Rightarrow> Vec3 \<Rightarrow> real" where
  "dot3 (a1, a2, a3) (b1, b2, b3) = a1 * b1 + a2 * b2 + a3 * b3"

text \<open>Modelled from the spec: a scalar times a \<^verbatim>\<open>Vec3\<close>.\<close>
fun smul3 :: "real \<Rightarrow> Vec3 \<Rightarrow> Vec3" where
  "smul3 s (a1, a2, a3) = (s * a1, s * a2, s * a3)"

text \<open>Modelled from the spec: \<^verbatim>\<open>crossMat(v)\<close>, the matrix with \<^verbatim>\<open>crossMat(v) * w = v % w\<close>
  (section 4.1, "cross-product operators").\<close>
fun crossMat :: "Vec3 \<Rightarrow> Mat33" where
  "crossMat (x, y, z) = ((0, - z, y), (z, 0, - x), (- y, x, 0))"

text \<open>Modelled from the spec: \<^verbatim>\<open>Mat33 * Vec3\<close>, the transpose \<^verbatim>\<open>~\<close> of a \<^verbatim>\<open>Mat33\<close>,
  \<^verbatim>\<open>Mat33 * Mat33\<close>, a scalar times a \<^verbatim>\<open>Mat33\<close> and the diagonal matrix \<^verbatim>\<open>Mat33(s)\<close>.\<close>
fun mat33_vec :: "Mat33 \<Rightarrow> Vec3 \<Rightarrow> Vec3" where
  "mat33_vec (r1, r2, r3) v = (dot3 r1 v, dot3 r2 v, dot3 r3 v)"

fun transpose33 :: "Mat33 \<Rightarrow> Mat33" where
  "transpose33 ((a, b, c), (d, e, f), (g, h, i)) = ((a, d, g), (b, e, h), (c, f, i))"

fun mat33_mul :: "Mat33 \<Rightarrow> Mat33 \<Rightarrow> Mat33" where
  "mat33_mul (r1, r2, r3) B =
     (mat33_vec (transpose33 B) r1, mat33_vec (transpose33 B) r2, mat33_vec (transpose33 B) r3)"

fun smul33 :: "real \<Rightarrow> Mat33 \<Rightarrow> Mat33" where
  "smul33 s (r1, r2, r3) = (smul3 s r1, smul3 s r2, smul3 s r3)"

definition Mat33_diag :: "real \<Rightarrow> Mat33" where
  "Mat33_diag s = ((s, 0, 0), (0, s, 0), (0, 0, s))"


text \<open>Modelled from the spec: the operations on 6-component spatial vectors and 6-by-6
  spatial matrices (section 4.1): matrix times vector, matrix times matrix, transpose,
  the dot product of a \<^verbatim>\<open>SpatialRow\<close> with a \<^verbatim>\<open>SpatialVec\<close>, a scalar times a
  \<^verbatim>\<open>SpatialVec\<close>, the identity \<^verbatim>\<open>SpatialMat\<close>, and a \<^verbatim>\<open>Mat33\<close> applied to both halves
  of a \<^verbatim>\<open>SpatialVec\<close>.\<close>
fun smat_vec :: "SpatialMat \<Rightarrow> SpatialVec \<Rightarrow> SpatialVec" where
  "smat_vec ((A, B), (C, D)) (w, v) =
     (mat33_vec A w + mat33_vec B v, mat33_vec C w + mat33_vec D v)"

fun smat_mul :: "SpatialMat \<Rightarrow> SpatialMat \<Rightarrow> SpatialMat" where
  "smat_mul ((A, B), (C, D)) ((E, F), (G, H)) =
     ((mat33_mul A E + mat33_mul B G, mat33_mul A F + mat33_mul B H),
      (mat33_mul C E + mat33_mul D G, mat33_mul C F + mat33_mul D H))"

fun smat_transpose :: "SpatialMat \<Rightarrow> SpatialMat" where
  "smat_transpose ((A, B), (C, D)) =
     ((transpose33 A, transpose33 C), (transpose33 B, transpose33 D))"

fun sdot :: "SpatialRow \<Rightarrow> SpatialVec \<Rightarrow> real" where
  "sdot (rw, rv) (w, v) = dot3 rw w + dot3 rv v"

fun ssmul :: "real \<Rightarrow> SpatialVec \<Rightarrow> SpatialVec" where
  "ssmul s (w, v) = (smul3 s w, smul3 s v)"

definition SpatialMat_one :: SpatialMat where
  "SpatialMat_one = ((Mat33_diag 1, 0), (0, Mat33_diag 1))"

fun mat33_svec :: "Mat33 \<Rightarrow> SpatialVec \<Rightarrow> SpatialVec" where
  "mat33_svec M (w, v) = (mat33_vec M w, mat33_vec M v)"


text \<open>Modelled from the spec: the shift operator \<^verbatim>\<open>PhiMatrix\<close> (section 4.1: "the shift
  operator Phi(r) that translates a spatial quantity by offset r (its transpose performing
  the inverse-direction shift)"). \<^verbatim>\<open>PhiMatrix(l)\<close> stands for the spatial matrix with
  identity diagonal blocks, upper-right block \<^verbatim>\<open>crossMat(l)\<close> and lower-left block zero;
  only the offset is stored. The four products used by the node code are written out.\<close>
fun phi_vec :: "PhiMatrix \<Rightarrow> SpatialVec \<Rightarrow> SpatialVec" where
  "phi_vec l (w, v) = (w + cross l v, v)"

fun phiT_vec :: "PhiMatrix \<Rightarrow> SpatialVec \<Rightarrow> SpatialVec" where
  "phiT_vec l (w, v) = (w, v + cross w l)"

fun phi_smat :: "PhiMatrix \<Rightarrow> SpatialMat \<Rightarrow> SpatialMat" where
  "phi_smat l ((A, B), (C, D)) =
     ((A + mat33_mul (crossMat l) C, B + mat33_mul (crossMat l) D), (C, D))"

fun smat_phiT :: "SpatialMat \<Rightarrow> PhiMatrix \<Rightarrow> SpatialMat" where
  "smat_phiT ((A, B), (C, D)) l =
     ((A - mat33_mul B (crossMat l), B), (C - mat33_mul D (crossMat l), D))"

definition PhiMatrix_full :: "PhiMatrix \<Rightarrow> SpatialMat" where
  "PhiMatrix_full l = ((Mat33_diag 1, crossMat l), (0, Mat33_diag 1))"

text \<open>Modelled from the spec: the rotation and translation of a \<^verbatim>\<open>Transform\<close>
  (\<^verbatim>\<open>X.R()\<close>, \<^verbatim>\<open>X.T()\<close>), and \<^verbatim>\<open>changeAxes\<close> of an inertia tensor (section 4.4:
  "rotate the body's local inertia tensor into ground axes"): the tensor \<^verbatim>\<open>I\<close> expressed
  in a frame A, with \<^verbatim>\<open>R\<close> the orientation of a frame B in A, becomes \<^verbatim>\<open>~R * I * R\<close>.\<close>
definition Transform_R :: "Transform \<Rightarrow> Mat33" where
  "Transform_R X = fst X"

definition Transform_T :: "Transform \<Rightarrow> Vec3" where
  "Transform_T X = snd X"

definition changeAxes :: "Mat33 \<Rightarrow> Mat33 \<Rightarrow> Mat33" where
  "changeAxes I R = mat33_mul (transpose33 R) (mat33_mul I R)"

section \<open>Nodes\<close>

text \<open>
  The concrete classes of the file. \<^verbatim>\<open>RBGroundBody\<close> derives from \<^verbatim>\<open>RigidBodyNode\<close>;
  the others derive from \<^verbatim>\<open>RigidBodyNodeSpec<dof>\<close>.
\<close>

datatype NodeClass =
    RBGroundBody
  | RBNodeTranslate
  | RBNodeSlider
  | RBNodeTorsion
  | RBNodeRotate2
  | RBNodeTranslateRotate2
  | RBNodeRotate3
  | RBNodeTranslateRotate3

text \<open>
  A node. The tree is an arena: a pointer to a node is the node's \<^verbatim>\<open>nodeNum\<close>, so
  \<open>parent\<close> holds the parent's number and \<open>children\<close> the children's numbers, in the order
  of the \<^verbatim>\<open>children\<close> vector. The mass properties and the two fixed frames are read in
  the file through \<^verbatim>\<open>getMass()\<close>, \<^verbatim>\<open>getCOM_B()\<close>, \<^verbatim>\<open>getInertia_OB_B()\<close>,
  \<^verbatim>\<open>getX_PJb()\<close> and \<^verbatim>\<open>getX_BJ()\<close>.
\<close>

record RigidBodyNode =
  nodeClass :: NodeClass
  nodeNum :: int
  parent :: int
  children :: "int list"
  uIndex :: int
  uSqIndex :: int
  qIndex :: int
  getMass :: real
  getCOM_B :: Vec3
  getInertia_OB_B :: Mat33
  getX_PJb :: Transform
  getX_BJ :: Transform

section \<open>Configuration cache and position kinematics\<close>

text \<open>
  The caches are owned by the caller and indexed by node: a body-indexed entry is a
  function of \<^verbatim>\<open>nodeNum\<close>, a \<^verbatim>\<open>Vector\<close> is a function of the slot index. An access
  outside the allocated range is undefined in the C++ and is not modelled; the functions
  are total. \<^verbatim>\<open>storageForHt\<close> holds, in column \<open>j\<close>, row \<open>j - uIndex\<close> of the \<open>H\<close>
  of the node that owns slot \<open>j\<close>.
\<close>

record SBConfigurationCache =
  cc_X_JbJ :: "int \<Rightarrow> Transform"
  cc_X_PB :: "int \<Rightarrow> Transform"
  cc_X_GB :: "int \<Rightarrow> Transform"
  cc_Phi :: "int \<Rightarrow> PhiMatrix"
  cc_Inertia_OB_G :: "int \<Rightarrow> Mat33"
  cc_CB_G :: "int \<Rightarrow> Vec3"
  cc_COM_G :: "int \<Rightarrow> Vec3"
  cc_Mk :: "int \<Rightarrow> SpatialMat"
  storageForHt :: "int \<Rightarrow> SpatialVec"

definition getX_PB :: "SBConfigurationCache \<Rightarrow> RigidBodyNode \<Rightarrow> Transform" where
  "getX_PB cc n = cc_X_PB cc (nodeNum n)"

definition getX_GB :: "SBConfigurationCache \<Rightarrow> RigidBodyNode \<Rightarrow> Transform" where
  "getX_GB cc n = cc_X_GB cc (nodeNum n)"

definition getX_GP :: "SBConfigurationCache \<Rightarrow> RigidBodyNode \<Rightarrow> Transform" where
  "getX_GP cc n = cc_X_GB cc (parent n)"

definition getX_JbJ :: "SBConfigurationCache \<Rightarrow> RigidBodyNode \<Rightarrow> Transform" where
  "getX_JbJ cc n = cc_X_JbJ cc (nodeNum n)"

definition getCB_G :: "SBConfigurationCache \<Rightarrow> RigidBodyNode \<Rightarrow> Vec3" where
  "getCB_G cc n = cc_CB_G cc (nodeNum n)"

definition getInertia_OB_G :: "SBConfigurationCache \<Rightarrow> RigidBodyNode \<Rightarrow> Mat33" where
  "getInertia_OB_G cc n = cc_Inertia_OB_G cc (nodeNum n)"

definition getMk :: "SBConfigurationCache \<Rightarrow> RigidBodyNode \<Rightarrow> SpatialMat" where
  "getMk cc n = cc_Mk cc (nodeNum n)"

definition getPhi :: "SBConfigurationCache \<Rightarrow> RigidBodyNode \<Rightarrow> PhiMatrix" where
  "getPhi cc n = cc_Phi cc (nodeNum n)"

text \<open>\<^verbatim>\<open>RigidBodyNode::calcJointIndependentKinematicsPos\<close>, statement by statement.\<close>

definition calcJointIndependentKinematicsPos ::
  "RigidBodyNode \<Rightarrow> SBConfigurationCache \<Rightarrow> SBConfigurationCache" where
  "calcJointIndependentKinematicsPos n cc =
     (let T_PB_G = mat33_vec (Transform_R (getX_GP cc n)) (Transform_T (getX_PB cc n));
          cc1 = cc\<lparr>cc_Phi := (cc_Phi cc)(nodeNum n := T_PB_G)\<rparr>;
          cc2 = cc1\<lparr>cc_Inertia_OB_G := (cc_Inertia_OB_G cc1)
                  (nodeNum n := changeAxes (getInertia_OB_B n)
                                  (transpose33 (Transform_R (getX_GB cc1 n))))\<rparr>;
          cc3 = cc2\<lparr>cc_CB_G := (cc_CB_G cc2)
                  (nodeNum n := mat33_vec (Transform_R (getX_GB cc2 n)) (getCOM_B n))\<rparr>;
          cc4 = cc3\<lparr>cc_COM_G := (cc_COM_G cc3)
                  (nodeNum n := Transform_T (getX_GB cc3 n) + getCB_G cc3 n)\<rparr>;
          offDiag = smul33 (getMass n) (crossMat (getCB_G cc4 n))
      in cc4\<lparr>cc_Mk := (cc_Mk cc4)
               (nodeNum n := ((getInertia_OB_G cc4 n, offDiag),
                              (- offDiag, smul33 (getMass n) (Mat33_diag 1))))\<rparr>)"

text \<open>
  \<^verbatim>\<open>RigidBodyNodeSpec<dof>::realizeConfiguration\<close> runs the four joint-specific steps
  (\<^verbatim>\<open>calcJointSinCosQNorm\<close>, \<^verbatim>\<open>calcAcrossJointTransform\<close>, \<^verbatim>\<open>calcBodyTransforms\<close>,
  \<^verbatim>\<open>calcJointTransitionMatrix\<close>) and then \<^verbatim>\<open>calcJointIndependentKinematicsPos\<close>. The
  joint-specific steps only prepare the cache; they are the parameter \<open>jointKinematics\<close>,
  an arbitrary change of the cache. \<^verbatim>\<open>RBGroundBody::realizeConfiguration\<close> has an empty
  body.
\<close>

definition realizeConfiguration ::
  "(SBConfigurationCache \<Rightarrow> SBConfigurationCache) \<Rightarrow> RigidBodyNode \<Rightarrow>
     SBConfigurationCache \<Rightarrow> SBConfigurationCache" where
  "realizeConfiguration jointKinematics n cc =
     (if nodeClass n = RBGroundBody then cc
      else calcJointIndependentKinematicsPos n (jointKinematics cc))"

text \<open>The four 3-by-3 blocks of a spatial matrix.\<close>

definition upperLeft :: "SpatialMat \<Rightarrow> Mat33" where "upperLeft M = fst (fst M)"
definition upperRight :: "SpatialMat \<Rightarrow> Mat33" where "upperRight M = snd (fst M)"
definition lowerLeft :: "SpatialMat \<Rightarrow> Mat33" where "lowerLeft M = fst (snd M)"
definition lowerRight :: "SpatialMat \<Rightarrow> Mat33" where "lowerRight M = snd (snd M)"

section \<open>Joint variants: degrees of freedom and coordinate counts\<close>

text \<open>\<^verbatim>\<open>getDOF\<close> is the template argument of \<^verbatim>\<open>RigidBodyNodeSpec<dof>\<close> (0 for
  \<^verbatim>\<open>RBGroundBody\<close>); \<^verbatim>\<open>getMaxNQ\<close> and \<^verbatim>\<open>getNQ\<close> default to \<^verbatim>\<open>dof\<close> and are
  overridden by the ground body and by the two quaternion-bearing classes.\<close>

fun getDOF :: "NodeClass \<Rightarrow> nat" where
  "getDOF RBGroundBody = 0"
| "getDOF RBNodeTranslate = 3"
| "getDOF RBNodeSlider = 1"
| "getDOF RBNodeTorsion = 1"
| "getDOF RBNodeRotate2 = 2"
| "getDOF RBNodeTranslateRotate2 = 5"
| "getDOF RBNodeRotate3 = 3"
| "getDOF RBNodeTranslateRotate3 = 6"

fun getMaxNQ :: "NodeClass \<Rightarrow> nat" where
  "getMaxNQ RBGroundBody = 0"
| "getMaxNQ RBNodeRotate3 = 4"
| "getMaxNQ RBNodeTranslateRotate3 = 7"
| "getMaxNQ c = getDOF c"

record SBModelingVars =
  useEulerAngles :: bool

definition getUseEulerAngles :: "SBModelingVars \<Rightarrow> bool" where
  "getUseEulerAngles mv = useEulerAngles mv"

fun getNQ :: "NodeClass \<Rightarrow> SBModelingVars \<Rightarrow> nat" where
  "getNQ RBGroundBody mv = 0"
| "getNQ RBNodeRotate3 mv = (if getUseEulerAngles mv then 3 else 4)"
| "getNQ RBNodeTranslateRotate3 mv = (if getUseEulerAngles mv then 6 else 7)"
| "getNQ c mv = getDOF c"

definition dof :: "RigidBodyNode \<Rightarrow> nat" where
  "dof n = getDOF (nodeClass n)"

section \<open>Slot access\<close>

text \<open>
  A \<^verbatim>\<open>Vector\<close> is shared by all nodes; a node reads and writes the \<^verbatim>\<open>dof\<close> entries
  from its \<^verbatim>\<open>uIndex\<close> (or \<^verbatim>\<open>qIndex\<close>) on. A \<^verbatim>\<open>Vec<dof>\<close> is a list of \<^verbatim>\<open>dof\<close>
  reals. \<^verbatim>\<open>Mat<dof,dof>::getAs(&uSq[uSqIndex])\<close> views \<^verbatim>\<open>dof*dof\<close> consecutive entries
  as a matrix; the matrix library stores it column by column, and the model needs of the
  layout only that a matrix written is the matrix read. A \<^verbatim>\<open>Mat<dof,dof>\<close> is the list
  of its rows. The four quaternion slots are read and written the same way whatever the
  entries of the vector are, so \<^verbatim>\<open>fromQuat\<close> and \<^verbatim>\<open>toQuat\<close> leave the type of the entries
  open.
\<close>

type_synonym Vector = "int \<Rightarrow> real"

definition fromU :: "RigidBodyNode \<Rightarrow> Vector \<Rightarrow> real list" where
  "fromU n u = map (\<lambda>i. u (uIndex n + int i)) [0..<dof n]"

definition toU :: "RigidBodyNode \<Rightarrow> Vector \<Rightarrow> real list \<Rightarrow> Vector" where
  "toU n u v = (\<lambda>j. if uIndex n \<le> j \<and> j < uIndex n + int (dof n)
                     then v ! nat (j - uIndex n) else u j)"

definition fromQ :: "RigidBodyNode \<Rightarrow> Vector \<Rightarrow> real list" where
  "fromQ n q = map (\<lambda>i. q (qIndex n + int i)) [0..<dof n]"

definition toQ :: "RigidBodyNode \<Rightarrow> Vector \<Rightarrow> real list \<Rightarrow> Vector" where
  "toQ n q v = (\<lambda>j. if qIndex n \<le> j \<and> j < qIndex n + int (dof n)
                     then v ! nat (j - qIndex n) else q j)"

definition fromUSq :: "RigidBodyNode \<Rightarrow> Vector \<Rightarrow> real list list" where
  "fromUSq n s =
     map (\<lambda>i. map (\<lambda>j. s (uSqIndex n + int (i + j * dof n))) [0..<dof n]) [0..<dof n]"


definition fromQuat :: "RigidBodyNode \<Rightarrow> (int \<Rightarrow> 'a) \<Rightarrow> 'a \<times> 'a \<times> 'a \<times> 'a" where
  "fromQuat n q = (q (qIndex n), q (qIndex n + 1), q (qIndex n + 2), q (qIndex n + 3))"

fun toQuat :: "RigidBodyNode \<Rightarrow> (int \<Rightarrow> 'a) \<Rightarrow> 'a \<times> 'a \<times> 'a \<times> 'a \<Rightarrow> (int \<Rightarrow> 'a)" where
  "toQuat n q (a, b, c, d) =
     q(qIndex n := a, qIndex n + 1 := b, qIndex n + 2 := c, qIndex n + 3 := d)"

definition fromQVec3 :: "RigidBodyNode \<Rightarrow> Vector \<Rightarrow> int \<Rightarrow> Vec3" where
  "fromQVec3 n q offs =
     (q (qIndex n + offs), q (qIndex n + offs + 1), q (qIndex n + offs + 2))"

fun toQVec3 :: "RigidBodyNode \<Rightarrow> Vector \<Rightarrow> int \<Rightarrow> Vec3 \<Rightarrow> Vector" where
  "toQVec3 n q offs (a, b, c) =
     q(qIndex n + offs := a, qIndex n + offs + 1 := b, qIndex n + offs + 2 := c)"

definition fromUVec3 :: "RigidBodyNode \<Rightarrow> Vector \<Rightarrow> int \<Rightarrow> Vec3" where
  "fromUVec3 n u offs =
     (u (uIndex n + offs), u (uIndex n + offs + 1), u (uIndex n + offs + 2))"

definition getH :: "SBConfigurationCache \<Rightarrow> RigidBodyNode \<Rightarrow> SpatialRow list" where
  "getH cc n = map (\<lambda>i. storageForHt cc (uIndex n + int i)) [0..<dof n]"

section \<open>Products of joint-sized matrices\<close>

text \<open>Modelled from the spec: the products of the matrix library on joint-sized matrices
  (section 4.1), written out on lists. \<open>H\<close> (\<^verbatim>\<open>Mat<dof,2,Row3>\<close>) is the list of its
  \<^verbatim>\<open>dof\<close> rows, each a \<^verbatim>\<open>SpatialRow\<close>; \<open>G\<close> and \<open>P * ~H\<close> (\<^verbatim>\<open>Mat<2,dof,Vec3>\<close>) are the
  lists of their \<^verbatim>\<open>dof\<close> columns, each a \<^verbatim>\<open>SpatialVec\<close>.
\<close>

definition vecN_sub :: "real list \<Rightarrow> real list \<Rightarrow> real list" where
  "vecN_sub a b = map2 (-) a b"

definition rows_vec :: "SpatialRow list \<Rightarrow> SpatialVec \<Rightarrow> real list" where
  "rows_vec H z = map (\<lambda>h. sdot h z) H"

definition cols_vec :: "SpatialVec list \<Rightarrow> real list \<Rightarrow> SpatialVec" where
  "cols_vec G e = sum_list (map2 (\<lambda>g x. ssmul x g) G e)"

definition smat_Ht :: "SpatialMat \<Rightarrow> SpatialRow list \<Rightarrow> SpatialVec list" where
  "smat_Ht P H = map (smat_vec P) H"


definition matN_vec :: "real list list \<Rightarrow> real list \<Rightarrow> real list" where
  "matN_vec M e = map (\<lambda>row. sum_list (map2 (*) row e)) M"

definition cols_matN :: "SpatialVec list \<Rightarrow> real list list \<Rightarrow> SpatialVec list" where
  "cols_matN C M = map (\<lambda>j. cols_vec C (map (\<lambda>row. row ! j) M)) [0..<length C]"


section \<open>Motion, dynamics and reaction caches\<close>

record SBMotionCache =
  mc_V_PB_G :: "int \<Rightarrow> SpatialVec"
  mc_V_GB :: "int \<Rightarrow> SpatialVec"

record SBDynamicsCache =
  dc_P :: "int \<Rightarrow> SpatialMat"
  dc_TauBar :: "int \<Rightarrow> SpatialMat"
  dc_Psi :: "int \<Rightarrow> SpatialMat"
  dc_Y :: "int \<Rightarrow> SpatialMat"
  dc_GyroscopicForce :: "int \<Rightarrow> SpatialVec"
  dc_CoriolisAcceleration :: "int \<Rightarrow> SpatialVec"
  dc_CentrifugalForces :: "int \<Rightarrow> SpatialVec"
  storageForD :: Vector
  storageForDI :: Vector
  storageForG :: "int \<Rightarrow> SpatialVec"
  appliedMobilityForces :: Vector

record SBReactionCache =
  rc_Z :: "int \<Rightarrow> SpatialVec"
  rc_Gepsilon :: "int \<Rightarrow> SpatialVec"
  rc_A_GB :: "int \<Rightarrow> SpatialVec"
  rc_epsilon :: Vector
  rc_nu :: Vector

definition getV_GB :: "SBMotionCache \<Rightarrow> RigidBodyNode \<Rightarrow> SpatialVec" where
  "getV_GB mc n = mc_V_GB mc (nodeNum n)"

definition getV_PB_G :: "SBMotionCache \<Rightarrow> RigidBodyNode \<Rightarrow> SpatialVec" where
  "getV_PB_G mc n = mc_V_PB_G mc (nodeNum n)"

definition getP :: "SBDynamicsCache \<Rightarrow> RigidBodyNode \<Rightarrow> SpatialMat" where
  "getP dc n = dc_P dc (nodeNum n)"



definition getGyroscopicForce :: "SBDynamicsCache \<Rightarrow> RigidBodyNode \<Rightarrow> SpatialVec" where
  "getGyroscopicForce dc n = dc_GyroscopicForce dc (nodeNum n)"

definition getCoriolisAcceleration :: "SBDynamicsCache \<Rightarrow> RigidBodyNode \<Rightarrow> SpatialVec" where
  "getCoriolisAcceleration dc n = dc_CoriolisAcceleration dc (nodeNum n)"

definition getCentrifugalForces :: "SBDynamicsCache \<Rightarrow> RigidBodyNode \<Rightarrow> SpatialVec" where
  "getCentrifugalForces dc n = dc_CentrifugalForces dc (nodeNum n)"


definition getDI :: "SBDynamicsCache \<Rightarrow> RigidBodyNode \<Rightarrow> real list list" where
  "getDI dc n = fromUSq n (storageForDI dc)"

definition getG :: "SBDynamicsCache \<Rightarrow> RigidBodyNode \<Rightarrow> SpatialVec list" where
  "getG dc n = map (\<lambda>i. storageForG dc (uIndex n + int i)) [0..<dof n]"

definition updG :: "SBDynamicsCache \<Rightarrow> RigidBodyNode \<Rightarrow> SpatialVec list \<Rightarrow> SBDynamicsCache" where
  "updG dc n G =
     dc\<lparr>storageForG := (\<lambda>j. if uIndex n \<le> j \<and> j < uIndex n + int (dof n)
                              then G ! nat (j - uIndex n) else storageForG dc j)\<rparr>"

definition getAppliedJointForce :: "SBDynamicsCache \<Rightarrow> RigidBodyNode \<Rightarrow> real list" where
  "getAppliedJointForce dc n = fromU n (appliedMobilityForces dc)"

definition getZ :: "SBReactionCache \<Rightarrow> RigidBodyNode \<Rightarrow> SpatialVec" where
  "getZ rc n = rc_Z rc (nodeNum n)"

definition getGepsilon :: "SBReactionCache \<Rightarrow> RigidBodyNode \<Rightarrow> SpatialVec" where
  "getGepsilon rc n = rc_Gepsilon rc (nodeNum n)"

definition getA_GB :: "SBReactionCache \<Rightarrow> RigidBodyNode \<Rightarrow> SpatialVec" where
  "getA_GB rc n = rc_A_GB rc (nodeNum n)"

definition getEpsilon :: "SBReactionCache \<Rightarrow> RigidBodyNode \<Rightarrow> real list" where
  "getEpsilon rc n = fromU n (rc_epsilon rc)"

definition getNu :: "SBReactionCache \<Rightarrow> RigidBodyNode \<Rightarrow> real list" where
  "getNu rc n = fromU n (rc_nu rc)"

section \<open>Velocity-dependent dynamics terms\<close>

text \<open>\<^verbatim>\<open>RigidBodyNode::calcJointIndependentDynamicsVel\<close>. \<^verbatim>\<open>getV_GB(mc)[0]\<close> is the
  angular and \<^verbatim>\<open>getV_GB(mc)[1]\<close> the linear velocity; \<^verbatim>\<open>parent->getV_GB(mc)\<close> reads the
  parent's entry.\<close>

definition calcJointIndependentDynamicsVel ::
  "RigidBodyNode \<Rightarrow> SBConfigurationCache \<Rightarrow> SBMotionCache \<Rightarrow> SBDynamicsCache \<Rightarrow> SBDynamicsCache" where
  "calcJointIndependentDynamicsVel n cc mc dc =
     (if nodeNum n = 0 then
        dc\<lparr>dc_GyroscopicForce := (dc_GyroscopicForce dc)(nodeNum n := (0, 0)),
           dc_CoriolisAcceleration := (dc_CoriolisAcceleration dc)(nodeNum n := (0, 0)),
           dc_CentrifugalForces := (dc_CentrifugalForces dc)(nodeNum n := (0, 0))\<rparr>
      else
        (let omega = fst (getV_GB mc n);
             vel = snd (getV_GB mc n);
             dc1 = dc\<lparr>dc_GyroscopicForce := (dc_GyroscopicForce dc)
                     (nodeNum n := (cross omega (mat33_vec (getInertia_OB_G cc n) omega),
                                    smul3 (getMass n) (cross omega (cross omega (getCB_G cc n)))))\<rparr>;
             pOmega = fst (mc_V_GB mc (parent n));
             pVel = snd (mc_V_GB mc (parent n));
             dc2 = dc1\<lparr>dc_CoriolisAcceleration := (dc_CoriolisAcceleration dc1)
                     (nodeNum n := (0, cross pOmega (vel - pVel))
                                   + mat33_svec (crossMat omega) (getV_PB_G mc n))\<rparr>
         in dc2\<lparr>dc_CentrifugalForces := (dc_CentrifugalForces dc2)
                  (nodeNum n := smat_vec (getP dc2 n) (getCoriolisAcceleration dc2 n)
                                + getGyroscopicForce dc2 n)\<rparr>))"

section \<open>Articulated-body inertia recursion\<close>

datatype error = SingularMatrix | ReversedJoint | UnsupportedJointType




section \<open>Reaction-force and acceleration recursion on the cache\<close>

text \<open>One pass of the loop of \<^verbatim>\<open>calcZ\<close>: \<^verbatim>\<open>z += phiChild * (zChild + GepsChild)\<close>.\<close>

definition calcZ_child_step ::
  "SBConfigurationCache \<Rightarrow> RigidBodyNode \<Rightarrow> SBReactionCache \<Rightarrow> int \<Rightarrow> SBReactionCache" where
  "calcZ_child_step cc n rc c =
     rc\<lparr>rc_Z := (rc_Z rc)
          (nodeNum n := rc_Z rc (nodeNum n) + phi_vec (cc_Phi cc c) (rc_Z rc c + rc_Gepsilon rc c))\<rparr>"

definition RigidBodyNodeSpec_calcZ ::
  "RigidBodyNode \<Rightarrow> SBConfigurationCache \<Rightarrow> SBDynamicsCache \<Rightarrow> SpatialVec \<Rightarrow>
     SBReactionCache \<Rightarrow> SBReactionCache" where
  "RigidBodyNodeSpec_calcZ n cc dc spatialForce rc =
     (let rc1 = rc\<lparr>rc_Z := (rc_Z rc)(nodeNum n := getCentrifugalForces dc n - spatialForce)\<rparr>;
          rc2 = foldl (calcZ_child_step cc n) rc1 (children n);
          rc3 = rc2\<lparr>rc_epsilon := toU n (rc_epsilon rc2)
                  (vecN_sub (getAppliedJointForce dc n) (rows_vec (getH cc n) (getZ rc2 n)))\<rparr>;
          rc4 = rc3\<lparr>rc_nu := toU n (rc_nu rc3) (matN_vec (getDI dc n) (getEpsilon rc3 n))\<rparr>
      in rc4\<lparr>rc_Gepsilon := (rc_Gepsilon rc4)
               (nodeNum n := cols_vec (getG dc n) (getEpsilon rc4 n))\<rparr>)"

text \<open>\<^verbatim>\<open>RBGroundBody::calcZ\<close> has an empty body.\<close>

definition RBGroundBody_calcZ ::
  "RigidBodyNode \<Rightarrow> SBConfigurationCache \<Rightarrow> SBDynamicsCache \<Rightarrow> SpatialVec \<Rightarrow>
     SBReactionCache \<Rightarrow> SBReactionCache" where
  "RBGroundBody_calcZ n cc dc spatialForce rc = rc"

definition calcZ ::
  "RigidBodyNode \<Rightarrow> SBConfigurationCache \<Rightarrow> SBDynamicsCache \<Rightarrow> SpatialVec \<Rightarrow>
     SBReactionCache \<Rightarrow> SBReactionCache" where
  "calcZ n = (if nodeClass n = RBGroundBody then RBGroundBody_calcZ n
              else RigidBodyNodeSpec_calcZ n)"

text \<open>The two conversions of the rotation library that \<^verbatim>\<open>calcQDotDot\<close> calls are
  parameters of the model.\<close>

record RotationLib =
  convertAngVelDotToBodyFixed123DotDot :: "Vec3 \<Rightarrow> Vec3 \<Rightarrow> Vec3 \<Rightarrow> Vec3"
  convertAngVelDotToQuaternionDotDot :: "Vec4 \<Rightarrow> Vec3 \<Rightarrow> Vec3 \<Rightarrow> Vec4"

text \<open>\<^verbatim>\<open>calcQDotDot\<close>: the default of \<^verbatim>\<open>RigidBodyNodeSpec<dof>\<close> and the overrides of
  \<^verbatim>\<open>RBNodeRotate3\<close> and \<^verbatim>\<open>RBNodeTranslateRotate3\<close>. In \<^verbatim>\<open>RBNodeRotate3\<close>, \<^verbatim>\<open>dof\<close> is
  3, so \<^verbatim>\<open>fromU\<close> and \<^verbatim>\<open>toQ\<close> read and write the three entries at offset 0. The ground
  body has no \<^verbatim>\<open>calcQDotDot\<close>.\<close>

definition calcQDotDot ::
  "RotationLib \<Rightarrow> RigidBodyNode \<Rightarrow> SBModelingVars \<Rightarrow> Vector \<Rightarrow> SBConfigurationCache \<Rightarrow>
     Vector \<Rightarrow> Vector \<Rightarrow> Vector \<Rightarrow> Vector" where
  "calcQDotDot lib n mv q cc u udot qdotdot =
     (if nodeClass n = RBNodeRotate3 then
        (let w_JbJ = fromUVec3 n u 0;
             w_JbJ_dot = fromUVec3 n udot 0
         in if getUseEulerAngles mv then
              (let qdotdot1 = toQuat n qdotdot (0, 0, 0, 0);
                   R_JbJ = Transform_R (getX_JbJ cc n)
               in toQVec3 n qdotdot1 0
                    (convertAngVelDotToBodyFixed123DotDot lib (fromQVec3 n q 0)
                       (mat33_vec (transpose33 R_JbJ) w_JbJ)
                       (mat33_vec (transpose33 R_JbJ) w_JbJ_dot)))
            else toQuat n qdotdot
                   (convertAngVelDotToQuaternionDotDot lib (fromQuat n q) w_JbJ w_JbJ_dot))
      else if nodeClass n = RBNodeTranslateRotate3 then
        (let w_JbJ = fromUVec3 n u 0;
             w_JbJ_dot = fromUVec3 n udot 0;
             v_JbJ_dot = fromUVec3 n udot 3
         in if getUseEulerAngles mv then
              (let R_JbJ = Transform_R (getX_JbJ cc n);
                   theta = fromQVec3 n q 0;
                   qdotdot1 = toQVec3 n qdotdot 0
                     (convertAngVelDotToBodyFixed123DotDot lib theta
                        (mat33_vec (transpose33 R_JbJ) w_JbJ)
                        (mat33_vec (transpose33 R_JbJ) w_JbJ_dot));
                   qdotdot2 = toQVec3 n qdotdot1 4 (0, 0, 0)
               in toQVec3 n qdotdot2 3 v_JbJ_dot)
            else
              (let quat = fromQuat n q;
                   qdotdot1 = toQuat n qdotdot
                     (convertAngVelDotToQuaternionDotDot lib quat w_JbJ w_JbJ_dot)
               in toQVec3 n qdotdot1 4 v_JbJ_dot))
      else toQ n qdotdot (fromU n udot))"

text \<open>\<^verbatim>\<open>RigidBodyNodeSpec<dof>::calcAccel\<close>. \<^verbatim>\<open>udot\<close> is a reference into \<^verbatim>\<open>allUdot\<close>;
  the result is the reaction cache, \<^verbatim>\<open>allUdot\<close> and \<^verbatim>\<open>allQdotdot\<close>.\<close>

definition RigidBodyNodeSpec_calcAccel ::
  "RotationLib \<Rightarrow> RigidBodyNode \<Rightarrow> SBModelingVars \<Rightarrow> Vector \<Rightarrow> SBConfigurationCache \<Rightarrow>
     Vector \<Rightarrow> SBDynamicsCache \<Rightarrow> SBReactionCache \<times> Vector \<times> Vector \<Rightarrow>
     SBReactionCache \<times> Vector \<times> Vector" where
  "RigidBodyNodeSpec_calcAccel lib n mv allQ cc allU dc st =
     (case st of (rc, allUdot, allQdotdot) \<Rightarrow>
       (let alphap = phiT_vec (getPhi cc n) (rc_A_GB rc (parent n));
            allUdot1 = toU n allUdot
              (vecN_sub (getNu rc n) (rows_vec (getG dc n) alphap));
            rc1 = rc\<lparr>rc_A_GB := (rc_A_GB rc)
                    (nodeNum n := alphap + cols_vec (getH cc n) (fromU n allUdot1)
                                  + getCoriolisAcceleration dc n)\<rparr>
        in (rc1, allUdot1, calcQDotDot lib n mv allQ cc allU allUdot1 allQdotdot)))"

text \<open>\<^verbatim>\<open>RBGroundBody::calcAccel\<close> has an empty body.\<close>

definition RBGroundBody_calcAccel ::
  "RotationLib \<Rightarrow> RigidBodyNode \<Rightarrow> SBModelingVars \<Rightarrow> Vector \<Rightarrow> SBConfigurationCache \<Rightarrow>
     Vector \<Rightarrow> SBDynamicsCache \<Rightarrow> SBReactionCache \<times> Vector \<times> Vector \<Rightarrow>
     SBReactionCache \<times> Vector \<times> Vector" where
  "RBGroundBody_calcAccel lib n mv allQ cc allU dc st = st"

definition calcAccel ::
  "RotationLib \<Rightarrow> RigidBodyNode \<Rightarrow> SBModelingVars \<Rightarrow> Vector \<Rightarrow> SBConfigurationCache \<Rightarrow>
     Vector \<Rightarrow> SBDynamicsCache \<Rightarrow> SBReactionCache \<times> Vector \<times> Vector \<Rightarrow>
     SBReactionCache \<times> Vector \<times> Vector" where
  "calcAccel lib n = (if nodeClass n = RBGroundBody then RBGroundBody_calcAccel lib n
                      else RigidBodyNodeSpec_calcAccel lib n)"

section \<open>Reaction-force and acceleration recursion on caller-supplied arrays\<close>

text \<open>One pass of the loop of \<^verbatim>\<open>calcUDotPass1Inward\<close>: \<^verbatim>\<open>z\<close> is a reference to
  \<^verbatim>\<open>allZ[nodeNum]\<close>, and the child's entries are read from the arrays.\<close>

definition Pass1_child_step ::
  "SBConfigurationCache \<Rightarrow> RigidBodyNode \<Rightarrow> (int \<Rightarrow> SpatialVec) \<Rightarrow>
     (int \<Rightarrow> SpatialVec) \<Rightarrow> int \<Rightarrow> (int \<Rightarrow> SpatialVec)" where
  "Pass1_child_step cc n allGepsilon allZ c =
     allZ(nodeNum n := allZ (nodeNum n) + phi_vec (cc_Phi cc c) (allZ c + allGepsilon c))"

definition RigidBodyNodeSpec_calcUDotPass1Inward ::
  "RigidBodyNode \<Rightarrow> SBConfigurationCache \<Rightarrow> SBDynamicsCache \<Rightarrow> Vector \<Rightarrow>
     (int \<Rightarrow> SpatialVec) \<Rightarrow> (int \<Rightarrow> SpatialVec) \<times> (int \<Rightarrow> SpatialVec) \<times> Vector \<Rightarrow>
     (int \<Rightarrow> SpatialVec) \<times> (int \<Rightarrow> SpatialVec) \<times> Vector" where
  "RigidBodyNodeSpec_calcUDotPass1Inward n cc dc jointForces bodyForces st =
     (case st of (allZ, allGepsilon, allEpsilon) \<Rightarrow>
       (let myJointForce = fromU n jointForces;
            myBodyForce = bodyForces (nodeNum n);
            allZ1 = allZ(nodeNum n := getCentrifugalForces dc n - myBodyForce);
            allZ2 = foldl (Pass1_child_step cc n allGepsilon) allZ1 (children n);
            allEpsilon1 = toU n allEpsilon
              (vecN_sub myJointForce (rows_vec (getH cc n) (allZ2 (nodeNum n))))
        in (allZ2,
            allGepsilon(nodeNum n := cols_vec (getG dc n) (fromU n allEpsilon1)),
            allEpsilon1)))"

definition RBGroundBody_calcUDotPass1Inward ::
  "RigidBodyNode \<Rightarrow> SBConfigurationCache \<Rightarrow> SBDynamicsCache \<Rightarrow> Vector \<Rightarrow>
     (int \<Rightarrow> SpatialVec) \<Rightarrow> (int \<Rightarrow> SpatialVec) \<times> (int \<Rightarrow> SpatialVec) \<times> Vector \<Rightarrow>
     (int \<Rightarrow> SpatialVec) \<times> (int \<Rightarrow> SpatialVec) \<times> Vector" where
  "RBGroundBody_calcUDotPass1Inward n cc dc jointForces bodyForces st =
     (case st of (allZ, allGepsilon, allEpsilon) \<Rightarrow>
        (allZ(0 := - bodyForces 0), allGepsilon(0 := (0, 0)), allEpsilon))"

definition calcUDotPass1Inward ::
  "RigidBodyNode \<Rightarrow> SBConfigurationCache \<Rightarrow> SBDynamicsCache \<Rightarrow> Vector \<Rightarrow>
     (int \<Rightarrow> SpatialVec) \<Rightarrow> (int \<Rightarrow> SpatialVec) \<times> (int \<Rightarrow> SpatialVec) \<times> Vector \<Rightarrow>
     (int \<Rightarrow> SpatialVec) \<times> (int \<Rightarrow> SpatialVec) \<times> Vector" where
  "calcUDotPass1Inward n = (if nodeClass n = RBGroundBody then RBGroundBody_calcUDotPass1Inward n
                            else RigidBodyNodeSpec_calcUDotPass1Inward n)"

text \<open>\<^verbatim>\<open>RigidBodyNodeSpec<dof>::calcUDotPass2Outward\<close>: the parent's entry of
  \<^verbatim>\<open>allA_GB\<close> is read only in the second branch of the conditional expression.\<close>

definition RigidBodyNodeSpec_calcUDotPass2Outward ::
  "RigidBodyNode \<Rightarrow> SBConfigurationCache \<Rightarrow> SBDynamicsCache \<Rightarrow> Vector \<Rightarrow>
     (int \<Rightarrow> SpatialVec) \<times> Vector \<Rightarrow> (int \<Rightarrow> SpatialVec) \<times> Vector" where
  "RigidBodyNodeSpec_calcUDotPass2Outward n cc dc allEpsilon st =
     (case st of (allA_GB, allUDot) \<Rightarrow>
       (let eps = fromU n allEpsilon;
            A_GP = (if parent n = 0 then (0, 0)
                    else phiT_vec (getPhi cc n) (allA_GB (parent n)));
            allUDot1 = toU n allUDot
              (vecN_sub (matN_vec (getDI dc n) eps) (rows_vec (getG dc n) A_GP))
        in (allA_GB(nodeNum n := A_GP + cols_vec (getH cc n) (fromU n allUDot1)
                                 + getCoriolisAcceleration dc n),
            allUDot1)))"

definition RBGroundBody_calcUDotPass2Outward ::
  "RigidBodyNode \<Rightarrow> SBConfigurationCache \<Rightarrow> SBDynamicsCache \<Rightarrow> Vector \<Rightarrow>
     (int \<Rightarrow> SpatialVec) \<times> Vector \<Rightarrow> (int \<Rightarrow> SpatialVec) \<times> Vector" where
  "RBGroundBody_calcUDotPass2Outward n cc dc epsilonTmp st =
     (case st of (allA_GB, allUDot) \<Rightarrow> (allA_GB(0 := (0, 0)), allUDot))"

definition calcUDotPass2Outward ::
  "RigidBodyNode \<Rightarrow> SBConfigurationCache \<Rightarrow> SBDynamicsCache \<Rightarrow> Vector \<Rightarrow>
     (int \<Rightarrow> SpatialVec) \<times> Vector \<Rightarrow> (int \<Rightarrow> SpatialVec) \<times> Vector" where
  "calcUDotPass2Outward n = (if nodeClass n = RBGroundBody then RBGroundBody_calcUDotPass2Outward n
                             else RigidBodyNodeSpec_calcUDotPass2Outward n)"

section \<open>Binary64 arithmetic\<close>

text \<open>
  \<^verbatim>\<open>Real\<close> is the C++ \<^verbatim>\<open>double\<close>, an IEEE 754 binary64 number. The other sections state
  which products and sums the node code writes and take \<^verbatim>\<open>Real\<close> as the reals, where the
  identities of linear algebra hold; whether a renormalized quaternion changes when it is
  renormalized again is a question of rounding, so the quaternion constraints are modelled
  on binary64 values. \<open>Finite s m e\<close> is the
  number \<open>(-1)\<^sup>s * m * 2\<^sup>e\<close> with \<open>0 \<le> m < 2\<^sup>5\<^sup>3\<close> and \<open>-1074 \<le> e \<le> 971\<close>, where \<open>2\<^sup>5\<^sup>2 \<le> m\<close>
  unless \<open>e = -1074\<close> (subnormal numbers and the two zeros), so that a number has one
  representation. The NaNs are one value. Every operation rounds the exact result once, to
  the nearest binary64 number and to the even mantissa in a tie (the default rounding
  mode); there is no extended precision and no fused operation.
\<close>

datatype double = Finite bool int int | Infinity bool | NaN

text \<open>The number of binary digits of a positive integer, and the integer square root.\<close>

function bitlen :: "int \<Rightarrow> int" where
  "bitlen m = (if m \<le> 0 then 0 else 1 + bitlen (m div 2))"
  by pat_completeness auto
termination by (relation "measure nat") auto

function isqrt :: "int \<Rightarrow> int" where
  "isqrt n = (if n < 1 then 0
              else let r = 2 * isqrt (n div 4) in if (r + 1) * (r + 1) \<le> n then r + 1 else r)"
  by pat_completeness auto
termination by (relation "measure nat") auto

declare bitlen.simps [simp del] isqrt.simps [simp del]

text \<open>
  \<open>round_double s M E\<close> rounds \<open>(-1)\<^sup>s * M * 2\<^sup>E\<close>, for any \<open>M \<ge> 0\<close> and \<open>E\<close>. The exponent
  of the result is that of the 53 leading digits of \<open>M\<close>, or \<open>-1074\<close> if that is larger;
  \<open>r\<close> holds the digits of \<open>M\<close> below it and \<open>half\<close> is half a unit in the last place. A
  mantissa rounded up to \<open>2\<^sup>5\<^sup>3\<close> moves to the next exponent, and an exponent above 971 is
  an overflow to infinity.
\<close>

definition round_double :: "bool \<Rightarrow> int \<Rightarrow> int \<Rightarrow> double" where
  "round_double s M E =
     (if M = 0 then Finite s 0 (- 1074)
      else
        (let e = max (E + bitlen M - 53) (- 1074);
             sh = e - E;
             q = (if sh \<le> 0 then M * 2 ^ nat (- sh) else M div 2 ^ nat sh);
             r = (if sh \<le> 0 then 0 else M mod 2 ^ nat sh);
             half = (if sh \<le> 0 then 1 else 2 ^ nat (sh - 1));
             m = (if half < r \<or> (r = half \<and> odd q) then q + 1 else q)
         in if m = 2 ^ 53 then (if 971 < e + 1 then Infinity s else Finite s (2 ^ 52) (e + 1))
            else if 971 < e then Infinity s else Finite s m e))"

text \<open>The product of two finite numbers is exact before rounding.\<close>

definition fmul :: "double \<Rightarrow> double \<Rightarrow> double" where
  "fmul x y =
     (case (x, y) of
        (Finite s m e, Finite t n f) \<Rightarrow> round_double (s \<noteq> t) (m * n) (e + f)
      | (Finite s m e, Infinity t) \<Rightarrow> if m = 0 then NaN else Infinity (s \<noteq> t)
      | (Infinity s, Finite t n f) \<Rightarrow> if n = 0 then NaN else Infinity (s \<noteq> t)
      | (Infinity s, Infinity t) \<Rightarrow> Infinity (s \<noteq> t)
      | _ \<Rightarrow> NaN)"

text \<open>The sum of two finite numbers is exact at the smaller of the two exponents. A sum
  of two zeros is negative only if both are; any other sum that is zero is positive.\<close>

definition fadd :: "double \<Rightarrow> double \<Rightarrow> double" where
  "fadd x y =
     (case (x, y) of
        (Finite s m e, Finite t n f) \<Rightarrow>
          if m = 0 \<and> n = 0 then Finite (s \<and> t) 0 (- 1074)
          else
            (let g = min e f;
                 v = (if s then - m else m) * 2 ^ nat (e - g)
                     + (if t then - n else n) * 2 ^ nat (f - g)
             in if v = 0 then Finite False 0 (- 1074) else round_double (v < 0) \<bar>v\<bar> g)
      | (Finite s m e, Infinity t) \<Rightarrow> Infinity t
      | (Infinity s, Finite t n f) \<Rightarrow> Infinity s
      | (Infinity s, Infinity t) \<Rightarrow> if s = t then Infinity s else NaN
      | _ \<Rightarrow> NaN)"

text \<open>
  The quotient of two mantissas is computed to at least 56 digits, \<open>q\<close>, and a last digit
  is appended that is 1 if the division left a remainder: rounding this number gives the
  same result as rounding the exact quotient, because at least three digits are dropped.
  \<open>0 / 0\<close> is NaN and any other division by zero is an infinity.
\<close>

definition fdiv :: "double \<Rightarrow> double \<Rightarrow> double" where
  "fdiv x y =
     (case (x, y) of
        (Finite s m e, Finite t n f) \<Rightarrow>
          if n = 0 then (if m = 0 then NaN else Infinity (s \<noteq> t))
          else
            (let q = (m * 2 ^ 108) div n;
                 r = (m * 2 ^ 108) mod n
             in round_double (s \<noteq> t) (2 * q + (if r = 0 then 0 else 1)) (e - f - 109))
      | (Finite s m e, Infinity t) \<Rightarrow> Finite (s \<noteq> t) 0 (- 1074)
      | (Infinity s, Finite t n f) \<Rightarrow> Infinity (s \<noteq> t)
      | _ \<Rightarrow> NaN)"

text \<open>
  The square root of \<open>m * 2\<^sup>e\<close>: the mantissa is scaled by \<open>2\<^sup>k\<close> with \<open>e - k\<close> even, its
  integer square root \<open>r\<close> has at least 56 digits, and a last digit is appended that is 1 if
  \<open>r\<close> is not the exact root. The root of a zero is that zero, and the root of a negative
  number is NaN.
\<close>

definition fsqrt :: "double \<Rightarrow> double" where
  "fsqrt x =
     (case x of
        Finite s m e \<Rightarrow>
          if m = 0 then Finite s 0 (- 1074)
          else if s then NaN
          else
            (let k = (if even e then 110 else 111);
                 r = isqrt (m * 2 ^ nat k)
             in round_double False (2 * r + (if r * r = m * 2 ^ nat k then 0 else 1))
                  ((e - k) div 2 - 1))
      | Infinity s \<Rightarrow> if s then NaN else Infinity False
      | NaN \<Rightarrow> NaN)"

text \<open>The conversion of an integer to \<^verbatim>\<open>double\<close>.\<close>

definition double_of_int :: "int \<Rightarrow> double" where
  "double_of_int k = round_double (k < 0) \<bar>k\<bar> 0"

section \<open>Quaternion constraints\<close>

text \<open>Modelled from the spec: \<^verbatim>\<open>Vec4::norm()\<close>, the Euclidean norm (the square root of the
  sum of the squares, added in the order of the components), and a \<^verbatim>\<open>Vec4\<close> divided by
  a scalar, component by component (section 4.1), in \<^verbatim>\<open>double\<close> arithmetic.\<close>

fun fnorm4 :: "double \<times> double \<times> double \<times> double \<Rightarrow> double" where
  "fnorm4 (a, b, c, d) = fsqrt (fadd (fadd (fadd (fmul a a) (fmul b b)) (fmul c c)) (fmul d d))"

fun fdiv4 ::
  "double \<times> double \<times> double \<times> double \<Rightarrow> double \<Rightarrow> double \<times> double \<times> double \<times> double" where
  "fdiv4 (a, b, c, d) s = (fdiv a s, fdiv b s, fdiv c s, fdiv d s)"

text \<open>\<^verbatim>\<open>enforceQuaternionConstraints\<close>: the overrides of \<^verbatim>\<open>RBNodeRotate3\<close> and
  \<^verbatim>\<open>RBNodeTranslateRotate3\<close> have the same body; \<^verbatim>\<open>RBGroundBody\<close> and the default of
  \<^verbatim>\<open>RigidBodyNodeSpec<dof>\<close> return false. The result is the returned flag and \<^verbatim>\<open>q\<close>.\<close>

definition enforceQuaternionConstraints ::
  "RigidBodyNode \<Rightarrow> SBModelingVars \<Rightarrow> (int \<Rightarrow> double) \<Rightarrow> bool \<times> (int \<Rightarrow> double)" where
  "enforceQuaternionConstraints n mv q =
     (if nodeClass n = RBNodeRotate3 \<or> nodeClass n = RBNodeTranslateRotate3 then
        (if getUseEulerAngles mv then (False, q)
         else (True, toQuat n q (fdiv4 (fromQuat n q) (fnorm4 (fromQuat n q)))))
      else (False, q))"

section \<open>Node factory\<close>

datatype JointType =
    ThisIsGround | Torsion | Universal | Orientation | Cartesian | FreeLine | Free | Sliding
  | Cylinder | Planar | Gimbal | Weld

text \<open>The constructor of \<^verbatim>\<open>RigidBodyNodeSpec<dof>\<close> stores the three counters in the
  node, and the constructor of each derived class then calls \<^verbatim>\<open>updateSlots\<close>. The
  constructor of the base class \<^verbatim>\<open>RigidBodyNode\<close> is declared in a header: it is the
  parameter \<open>base\<close>, a function of the mass properties and the two frames. The counters
  are C++ \<^verbatim>\<open>int\<close>s, 32 bits wide: a counter is a \<open>32 word\<close> read by \<open>sint\<close>, and \<^verbatim>\<open>+=\<close>
  wraps around where the sum leaves the range of \<^verbatim>\<open>int\<close>.\<close>

type_synonym MassProperties = "real \<times> Vec3 \<times> Mat33"
type_synonym SlotCounters = "32 word \<times> 32 word \<times> 32 word"

definition updateSlots :: "NodeClass \<Rightarrow> SlotCounters \<Rightarrow> SlotCounters" where
  "updateSlots c s =
     (case s of (nextUSlot, nextUSqSlot, nextQSlot) \<Rightarrow>
        (nextUSlot + of_nat (getDOF c),
         nextUSqSlot + of_nat (getDOF c) * of_nat (getDOF c),
         nextQSlot + of_nat (getMaxNQ c)))"

definition RigidBodyNodeSpec_new ::
  "(MassProperties \<Rightarrow> Transform \<Rightarrow> Transform \<Rightarrow> RigidBodyNode) \<Rightarrow> NodeClass \<Rightarrow>
     MassProperties \<Rightarrow> Transform \<Rightarrow> Transform \<Rightarrow> SlotCounters \<Rightarrow> RigidBodyNode \<times> SlotCounters" where
  "RigidBodyNodeSpec_new base c m X_PJb X_BJ s =
     (case s of (nextUSlot, nextUSqSlot, nextQSlot) \<Rightarrow>
        ((base m X_PJb X_BJ)\<lparr>nodeClass := c, uIndex := sint nextUSlot,
                              uSqIndex := sint nextUSqSlot, qIndex := sint nextQSlot\<rparr>,
         updateSlots c s))"

text \<open>\<^verbatim>\<open>RigidBodyNode::create\<close>. \<open>ground_args\<close> are the default-constructed arguments
  that \<^verbatim>\<open>RBGroundBody()\<close> passes to the base class. A failed \<^verbatim>\<open>assert\<close> is an error.\<close>

definition create ::
  "(MassProperties \<Rightarrow> Transform \<Rightarrow> Transform \<Rightarrow> RigidBodyNode) \<Rightarrow>
     MassProperties \<times> Transform \<times> Transform \<Rightarrow>
     MassProperties \<Rightarrow> Transform \<Rightarrow> Transform \<Rightarrow> JointType \<Rightarrow> bool \<Rightarrow> SlotCounters \<Rightarrow>
     error + RigidBodyNode \<times> SlotCounters" where
  "create base ground_args m X_PJb X_BJ type isReversed s =
     (if isReversed then Inl ReversedJoint
      else case type of
          ThisIsGround \<Rightarrow>
            Inr ((case ground_args of (gm, gp, gb) \<Rightarrow> base gm gp gb)\<lparr>nodeClass := RBGroundBody\<rparr>, s)
        | Torsion \<Rightarrow> Inr (RigidBodyNodeSpec_new base RBNodeTorsion m X_PJb X_BJ s)
        | Universal \<Rightarrow> Inr (RigidBodyNodeSpec_new base RBNodeRotate2 m X_PJb X_BJ s)
        | Orientation \<Rightarrow> Inr (RigidBodyNodeSpec_new base RBNodeRotate3 m X_PJb X_BJ s)
        | Cartesian \<Rightarrow> Inr (RigidBodyNodeSpec_new base RBNodeTranslate m X_PJb X_BJ s)
        | FreeLine \<Rightarrow> Inr (RigidBodyNodeSpec_new base RBNodeTranslateRotate2 m X_PJb X_BJ s)
        | Free \<Rightarrow> Inr (RigidBodyNodeSpec_new base RBNodeTranslateRotate3 m X_PJb X_BJ s)
        | Sliding \<Rightarrow> Inr (RigidBodyNodeSpec_new base RBNodeSlider m X_PJb X_BJ s)
        | _ \<Rightarrow> Inl UnsupportedJointType)"

section \<open>Walking the tree\<close>

text \<open>Modelled from the spec: the orchestrator that walks the node array is not part of
  the file (sections 1 and 4.3). \<open>nodes\<close> lists the nodes in a base-to-tip order; an
  inward pass runs over the list from its end ("Reaction-force reduction (Z-recursion)
  traverses tip-to-base"), an outward pass from its front ("the final acceleration
  computation must traverse base-to-tip"). \<^verbatim>\<open>calcZ\<close> receives the spatial force applied
  to the node it is called on.\<close>

definition calcZ_inward ::
  "RigidBodyNode list \<Rightarrow> SBConfigurationCache \<Rightarrow> SBDynamicsCache \<Rightarrow> (int \<Rightarrow> SpatialVec) \<Rightarrow>
     SBReactionCache \<Rightarrow> SBReactionCache" where
  "calcZ_inward nodes cc dc spatialForces rc =
     foldr (\<lambda>n r. calcZ n cc dc (spatialForces (nodeNum n)) r) nodes rc"

definition calcAccel_outward ::
  "RotationLib \<Rightarrow> RigidBodyNode list \<Rightarrow> SBModelingVars \<Rightarrow> Vector \<Rightarrow> SBConfigurationCache \<Rightarrow>
     Vector \<Rightarrow> SBDynamicsCache \<Rightarrow> SBReactionCache \<times> Vector \<times> Vector \<Rightarrow>
     SBReactionCache \<times> Vector \<times> Vector" where
  "calcAccel_outward lib nodes mv q cc u dc st =
     foldl (\<lambda>s n. calcAccel lib n mv q cc u dc s) st nodes"

definition calcUDotPass1_inward ::
  "RigidBodyNode list \<Rightarrow> SBConfigurationCache \<Rightarrow> SBDynamicsCache \<Rightarrow> Vector \<Rightarrow>
     (int \<Rightarrow> SpatialVec) \<Rightarrow> (int \<Rightarrow> SpatialVec) \<times> (int \<Rightarrow> SpatialVec) \<times> Vector \<Rightarrow>
     (int \<Rightarrow> SpatialVec) \<times> (int \<Rightarrow> SpatialVec) \<times> Vector" where
  "calcUDotPass1_inward nodes cc dc jointForces bodyForces st =
     foldr (\<lambda>n s. calcUDotPass1Inward n cc dc jointForces bodyForces s) nodes st"

definition calcUDotPass2_outward ::
  "RigidBodyNode list \<Rightarrow> SBConfigurationCache \<Rightarrow> SBDynamicsCache \<Rightarrow> Vector \<Rightarrow>
     (int \<Rightarrow> SpatialVec) \<times> Vector \<Rightarrow> (int \<Rightarrow> SpatialVec) \<times> Vector" where
  "calcUDotPass2_outward nodes cc dc allEpsilon st =
     foldl (\<lambda>s n. calcUDotPass2Outward n cc dc allEpsilon s) st nodes"

text \<open>Modelled from the spec: the allocation of the reaction cache is not part of the
  file. Section 4.8 has "ground's acceleration is the zero spatial vector", and the
  comment in \<^verbatim>\<open>calcAccel\<close> has "ground A_GB is 0": the entry of node 0 is zero before
  the recursion starts. Nothing is said about the other entries, which stay as they are.\<close>

definition SBReactionCache_allocate :: "SBReactionCache \<Rightarrow> SBReactionCache" where
  "SBReactionCache_allocate rc = rc\<lparr>rc_A_GB := (rc_A_GB rc)(0 := (0, 0))\<rparr>"

text \<open>Modelled from the spec: the two ways to the accelerations \<^verbatim>\<open>udot\<close> of a whole tree
  (sections 4.8 and 4.9). The first runs \<^verbatim>\<open>calcZ\<close> inward and \<^verbatim>\<open>calcAccel\<close> outward on
  the reaction cache; the second runs \<^verbatim>\<open>calcUDotPass1Inward\<close> inward and
  \<^verbatim>\<open>calcUDotPass2Outward\<close> outward on arrays of the caller. Both return \<^verbatim>\<open>udot\<close>.\<close>

definition udot_by_cache ::
  "RotationLib \<Rightarrow> RigidBodyNode list \<Rightarrow> SBModelingVars \<Rightarrow> Vector \<Rightarrow> SBConfigurationCache \<Rightarrow>
     Vector \<Rightarrow> SBDynamicsCache \<Rightarrow> (int \<Rightarrow> SpatialVec) \<Rightarrow>
     SBReactionCache \<times> Vector \<times> Vector \<Rightarrow> Vector" where
  "udot_by_cache lib nodes mv q cc u dc spatialForces st =
     (case st of (rc, allUdot, allQdotdot) \<Rightarrow>
        fst (snd (calcAccel_outward lib nodes mv q cc u dc
                    (calcZ_inward nodes cc dc spatialForces (SBReactionCache_allocate rc),
                     allUdot, allQdotdot))))"

definition udot_by_arrays ::
  "RigidBodyNode list \<Rightarrow> SBConfigurationCache \<Rightarrow> SBDynamicsCache \<Rightarrow> Vector \<Rightarrow>
     (int \<Rightarrow> SpatialVec) \<Rightarrow> (int \<Rightarrow> SpatialVec) \<times> (int \<Rightarrow> SpatialVec) \<times> Vector \<Rightarrow>
     (int \<Rightarrow> SpatialVec) \<times> Vector \<Rightarrow> Vector" where
  "udot_by_arrays nodes cc dc jointForces bodyForces tmp st =
     snd (calcUDotPass2_outward nodes cc dc
            (snd (snd (calcUDotPass1_inward nodes cc dc jointForces bodyForces tmp))) st)"

text \<open>The shape of the node list that the passes rely on: the ground body, and only it,
  has number 0; the numbers are distinct; the parent of a node other than ground is node
  0 or a node earlier in the list; its children are nodes other than ground later in the
  list; and no two nodes share a slot of the \<^verbatim>\<open>u\<close>-indexed vectors. \<open>seen\<close> are the
  numbers of the nodes before the list.\<close>

definition uslots_disjoint :: "RigidBodyNode \<Rightarrow> RigidBodyNode \<Rightarrow> bool" where
  "uslots_disjoint n m \<longleftrightarrow>
     uIndex n + int (dof n) \<le> uIndex m \<or> uIndex m + int (dof m) \<le> uIndex n"

fun tree_ok :: "int list \<Rightarrow> RigidBodyNode list \<Rightarrow> bool" where
  "tree_ok seen [] = True"
| "tree_ok seen (n # ns) =
     ((nodeClass n = RBGroundBody \<longleftrightarrow> nodeNum n = 0)
      \<and> nodeNum n \<notin> set seen
      \<and> nodeNum n \<notin> set (map nodeNum ns)
      \<and> (nodeClass n \<noteq> RBGroundBody \<longrightarrow>
           (parent n = 0 \<or> parent n \<in> set seen)
           \<and> set (children n)
               \<subseteq> set (map nodeNum (filter (\<lambda>m. nodeClass m \<noteq> RBGroundBody) ns)))
      \<and> (\<forall>m \<in> set ns. uslots_disjoint n m)
      \<and> tree_ok (nodeNum n # seen) ns)"





section \<open>A small tree for concrete evaluation\<close>

text \<open>
  A ground body, a pin body on ground (node 1), a slider on the pin body (node 2) and a
  ball body (node 3), with caches filled with simple numbers. \<open>ex_base\<close> stands for
  the constructor of the base class, \<open>ex_invert\<close> inverts a 1-by-1 matrix, and \<open>ex_lib\<close>
  stands for the two conversions of the rotation library.
\<close>

definition ex_base :: "MassProperties \<Rightarrow> Transform \<Rightarrow> Transform \<Rightarrow> RigidBodyNode" where
  "ex_base m X_PJb X_BJ =
     \<lparr>nodeClass = RBGroundBody, nodeNum = - 1, parent = - 1, children = [],
      uIndex = - 1, uSqIndex = - 1, qIndex = - 1,
      getMass = fst m, getCOM_B = fst (snd m), getInertia_OB_B = snd (snd m),
      getX_PJb = X_PJb, getX_BJ = X_BJ\<rparr>"

definition ex_frame :: Transform where
  "ex_frame = (Mat33_diag 1, (0, 0, 0))"

definition ex_mass :: MassProperties where
  "ex_mass = (2, (1, 0, 0), Mat33_diag 1)"

definition ex_ground :: RigidBodyNode where
  "ex_ground = (ex_base (0, (0, 0, 0), Mat33_diag 0) ex_frame ex_frame)
     \<lparr>nodeClass := RBGroundBody, nodeNum := 0, parent := 0, children := [1]\<rparr>"

definition ex_pin :: RigidBodyNode where
  "ex_pin = (ex_base ex_mass ex_frame ex_frame)
     \<lparr>nodeClass := RBNodeTorsion, nodeNum := 1, parent := 0, children := [2],
      uIndex := 0, uSqIndex := 0, qIndex := 0\<rparr>"

definition ex_slider :: RigidBodyNode where
  "ex_slider = (ex_base ex_mass ex_frame ex_frame)
     \<lparr>nodeClass := RBNodeSlider, nodeNum := 2, parent := 1, children := [],
      uIndex := 1, uSqIndex := 1, qIndex := 1\<rparr>"

definition ex_ball :: RigidBodyNode where
  "ex_ball = (ex_base ex_mass ex_frame ex_frame)
     \<lparr>nodeClass := RBNodeRotate3, nodeNum := 3, parent := 0, children := [],
      uIndex := 2, uSqIndex := 2, qIndex := 2\<rparr>"

definition ex_invert :: "real list list \<Rightarrow> real list list option" where
  "ex_invert M = (case M of [[d]] \<Rightarrow> if d = 0 then None else Some [[1 / d]] | _ \<Rightarrow> None)"

definition ex_lib :: RotationLib where
  "ex_lib = \<lparr>convertAngVelDotToBodyFixed123DotDot = (\<lambda>theta w wdot. wdot),
             convertAngVelDotToQuaternionDotDot = (\<lambda>quat w wdot. (0, wdot))\<rparr>"

definition ex_quat_mode :: SBModelingVars where
  "ex_quat_mode = \<lparr>useEulerAngles = False\<rparr>"

definition ex_euler_mode :: SBModelingVars where
  "ex_euler_mode = \<lparr>useEulerAngles = True\<rparr>"

definition ex_q :: Vector where
  "ex_q = (\<lambda>j. if j = 2 then 3 else if j = 4 then 4 else if j = 6 then 7 else 0)"

definition ex_quat_q :: "int \<Rightarrow> double" where
  "ex_quat_q = (\<lambda>j. if j = 2 then double_of_int 1 else if j = 3 then double_of_int 2
                     else if j = 4 then double_of_int 3 else if j = 5 then double_of_int 4
                     else double_of_int 7)"

definition ex_zero_q :: "int \<Rightarrow> double" where
  "ex_zero_q = (\<lambda>j. double_of_int 0)"

definition ex_nodes :: "RigidBodyNode list" where
  "ex_nodes = [ex_ground, ex_pin, ex_slider]"

definition ex_cc :: SBConfigurationCache where
  "ex_cc = \<lparr>cc_X_JbJ = (\<lambda>k. ex_frame), cc_X_PB = (\<lambda>k. (Mat33_diag 1, (0, 0, 1))),
            cc_X_GB = (\<lambda>k. ex_frame),
            cc_Phi = (\<lambda>k. if k = 2 then (1, 0, 0) else (0, 0, 1)),
            cc_Inertia_OB_G = (\<lambda>k. Mat33_diag 1), cc_CB_G = (\<lambda>k. (1, 0, 0)),
            cc_COM_G = (\<lambda>k. (1, 0, 0)), cc_Mk = (\<lambda>k. SpatialMat_one),
            storageForHt = (\<lambda>j. if j = 0 then ((0, 0, 1), (0, 0, 0)) else ((0, 0, 0), (0, 0, 1)))\<rparr>"

definition ex_mc :: SBMotionCache where
  "ex_mc = \<lparr>mc_V_PB_G = (\<lambda>k. ((1, 0, 0), (0, 1, 0))),
            mc_V_GB = (\<lambda>k. if k = 1 then ((0, 0, 1), (1, 0, 0)) else ((0, 1, 0), (0, 0, 0)))\<rparr>"

definition ex_dc :: SBDynamicsCache where
  "ex_dc = \<lparr>dc_P = (\<lambda>k. SpatialMat_one), dc_TauBar = (\<lambda>k. SpatialMat_one),
            dc_Psi = (\<lambda>k. SpatialMat_one), dc_Y = (\<lambda>k. SpatialMat_one),
            dc_GyroscopicForce = (\<lambda>k. ((0, 0, 0), (0, 0, 0))),
            dc_CoriolisAcceleration = (\<lambda>k. ((0, 0, 0), (0, 1, 0))),
            dc_CentrifugalForces = (\<lambda>k. ((1, 0, 0), (0, 0, 0))),
            storageForD = (\<lambda>j. 2), storageForDI = (\<lambda>j. 1 / 2),
            storageForG = (\<lambda>j. if j = 0 then ((0, 0, 1), (0, 0, 0)) else ((0, 0, 0), (0, 0, 1))),
            appliedMobilityForces = (\<lambda>j. 4)\<rparr>"

definition ex_rc :: SBReactionCache where
  "ex_rc = \<lparr>rc_Z = (\<lambda>k. ((0, 0, 0), (0, 0, 1))), rc_Gepsilon = (\<lambda>k. ((0, 0, 0), (0, 0, 0))),
            rc_A_GB = (\<lambda>k. ((0, 0, 0), (0, 0, 5))),
            rc_epsilon = (\<lambda>j. 0), rc_nu = (\<lambda>j. 3)\<rparr>"


text \<open>Conversions of the rotation library whose results depend on each argument.\<close>

definition ex_lib_mixing :: RotationLib where
  "ex_lib_mixing =
     \<lparr>convertAngVelDotToBodyFixed123DotDot = (\<lambda>theta w wdot. theta + smul3 2 w + smul3 3 wdot),
      convertAngVelDotToQuaternionDotDot =
        (\<lambda>quat w wdot. case quat of (a, b, c, d) \<Rightarrow>
           case w + smul3 2 wdot of (x, y, z) \<Rightarrow> (a + b + c + d, x, y, z))\<rparr>"

text \<open>A reaction cache in which the pin body accelerates.\<close>

definition ex_rc_moving :: SBReactionCache where
  "ex_rc_moving = ex_rc\<lparr>rc_A_GB := (\<lambda>k. if k = 1 then ((0, 1, 0), (0, 0, 5)) else ((0, 0, 0), (0, 0, 0)))\<rparr>"

section \<open>Reading and writing slots\<close>

lemmas ex_defs = ex_base_def ex_frame_def ex_mass_def ex_ground_def ex_pin_def ex_slider_def
  ex_ball_def ex_nodes_def ex_invert_def ex_lib_def ex_quat_mode_def ex_euler_mode_def ex_q_def ex_cc_def ex_mc_def ex_dc_def ex_rc_def

lemma transpose33_smul33_crossMat:
  "transpose33 (smul33 m (crossMat c)) = - smul33 m (crossMat c)"
  by (cases c) simp

lemma Mk_after_KinematicsPos:
  "getMk (calcJointIndependentKinematicsPos n cc) n =
     ((getInertia_OB_G (calcJointIndependentKinematicsPos n cc) n,
       smul33 (getMass n) (crossMat (getCB_G (calcJointIndependentKinematicsPos n cc) n))),
      (- smul33 (getMass n) (crossMat (getCB_G (calcJointIndependentKinematicsPos n cc) n)),
       smul33 (getMass n) (Mat33_diag 1)))"
  by (simp add: calcJointIndependentKinematicsPos_def Let_def getMk_def getCB_G_def
      getInertia_OB_G_def)

lemma length_fromU [simp]: "length (fromU n u) = dof n"
  by (simp add: fromU_def)

lemma fromU_toU_same: "length v = dof n \<Longrightarrow> fromU n (toU n u v) = v"
  by (auto simp: fromU_def toU_def intro!: nth_equalityI)

lemma fromU_toU_other: "uslots_disjoint n m \<Longrightarrow> fromU m (toU n u v) = fromU m u"
  by (auto simp: fromU_def toU_def uslots_disjoint_def)

lemma length_vecN_sub [simp]: "length (vecN_sub a b) = min (length a) (length b)"
  by (simp add: vecN_sub_def)

lemma length_rows_vec [simp]: "length (rows_vec H z) = length H"
  by (simp add: rows_vec_def)

lemma length_getH [simp]: "length (getH cc n) = dof n"
  by (simp add: getH_def)

lemma length_getG [simp]: "length (getG dc n) = dof n"
  by (simp add: getG_def)

lemma length_matN_vec [simp]: "length (matN_vec M e) = length M"
  by (simp add: matN_vec_def)

lemma length_fromUSq [simp]: "length (fromUSq n s) = dof n"
  by (simp add: fromUSq_def)






lemma foldl_calcZ_child_step:
  "nodeNum n \<notin> set cs \<Longrightarrow>
   foldl (calcZ_child_step cc n) rc cs =
     rc\<lparr>rc_Z := (rc_Z rc)(nodeNum n := rc_Z rc (nodeNum n)
        + sum_list (map (\<lambda>c. phi_vec (cc_Phi cc c) (rc_Z rc c + rc_Gepsilon rc c)) cs))\<rparr>"
proof (induction cs arbitrary: rc)
  case Nil
  then show ?case by simp
next
  case (Cons c cs)
  let ?r = "calcZ_child_step cc n rc c"
  let ?F = "\<lambda>r c. phi_vec (cc_Phi cc c) (rc_Z r c + rc_Gepsilon r c)"
  from Cons.prems have c: "nodeNum n \<noteq> c" "nodeNum n \<notin> set cs" by auto
  have eq: "map (?F ?r) cs = map (?F rc) cs"
    by (rule map_cong) (use c in \<open>auto simp: calcZ_child_step_def\<close>)
  have "foldl (calcZ_child_step cc n) rc (c # cs) = foldl (calcZ_child_step cc n) ?r cs" by simp
  also have "\<dots> = ?r\<lparr>rc_Z := (rc_Z ?r)(nodeNum n := rc_Z ?r (nodeNum n) + sum_list (map (?F ?r) cs))\<rparr>"
    by (rule Cons.IH[OF c(2)])
  also have "\<dots> = rc\<lparr>rc_Z := (rc_Z rc)(nodeNum n := rc_Z rc (nodeNum n) + sum_list (map (?F rc) (c # cs)))\<rparr>"
    unfolding eq by (simp add: calcZ_child_step_def add.assoc)
  finally show ?case .
qed

lemma foldl_Pass1_child_step:
  "nodeNum n \<notin> set cs \<Longrightarrow>
   foldl (Pass1_child_step cc n Ge) Z cs =
     Z(nodeNum n := Z (nodeNum n)
        + sum_list (map (\<lambda>c. phi_vec (cc_Phi cc c) (Z c + Ge c)) cs))"
proof (induction cs arbitrary: Z)
  case Nil
  then show ?case by simp
next
  case (Cons c cs)
  let ?Z = "Pass1_child_step cc n Ge Z c"
  let ?F = "\<lambda>Z c. phi_vec (cc_Phi cc c) (Z c + Ge c)"
  from Cons.prems have c: "nodeNum n \<noteq> c" "nodeNum n \<notin> set cs" by auto
  have eq: "map (?F ?Z) cs = map (?F Z) cs"
    by (rule map_cong) (use c in \<open>auto simp: Pass1_child_step_def\<close>)
  have "foldl (Pass1_child_step cc n Ge) Z (c # cs) = foldl (Pass1_child_step cc n Ge) ?Z cs" by simp
  also have "\<dots> = ?Z(nodeNum n := ?Z (nodeNum n) + sum_list (map (?F ?Z) cs))"
    by (rule Cons.IH[OF c(2)])
  also have "\<dots> = Z(nodeNum n := Z (nodeNum n) + sum_list (map (?F Z) (c # cs)))"
    unfolding eq by (simp add: Pass1_child_step_def add.assoc)
  finally show ?case .
qed

lemma Spec_calcZ_closed:
  assumes "nodeNum n \<notin> set (children n)"
  shows "RigidBodyNodeSpec_calcZ n cc dc F rc =
    (let z = getCentrifugalForces dc n - F
               + sum_list (map (\<lambda>c. phi_vec (cc_Phi cc c) (rc_Z rc c + rc_Gepsilon rc c)) (children n));
         eps = vecN_sub (getAppliedJointForce dc n) (rows_vec (getH cc n) z)
     in rc\<lparr>rc_Z := (rc_Z rc)(nodeNum n := z),
           rc_epsilon := toU n (rc_epsilon rc) eps,
           rc_nu := toU n (rc_nu rc) (matN_vec (getDI dc n) eps),
           rc_Gepsilon := (rc_Gepsilon rc)(nodeNum n := cols_vec (getG dc n) eps)\<rparr>)"
proof -
  have ne: "\<And>c. c \<in> set (children n) \<Longrightarrow> (c = nodeNum n) = False" using assms by auto
  show ?thesis
    unfolding RigidBodyNodeSpec_calcZ_def foldl_calcZ_child_step[OF assms]
    by (simp add: Let_def getZ_def getEpsilon_def getAppliedJointForce_def fromU_toU_same ne
        cong: map_cong)
qed

lemma Spec_Pass1_closed:
  assumes "nodeNum n \<notin> set (children n)"
  shows "RigidBodyNodeSpec_calcUDotPass1Inward n cc dc jf bf (Z, Ge, E) =
    (let z = getCentrifugalForces dc n - bf (nodeNum n)
               + sum_list (map (\<lambda>c. phi_vec (cc_Phi cc c) (Z c + Ge c)) (children n));
         eps = vecN_sub (fromU n jf) (rows_vec (getH cc n) z)
     in (Z(nodeNum n := z), Ge(nodeNum n := cols_vec (getG dc n) eps), toU n E eps))"
proof -
  have ne: "\<And>c. c \<in> set (children n) \<Longrightarrow> (c = nodeNum n) = False" using assms by auto
  show ?thesis
    unfolding RigidBodyNodeSpec_calcUDotPass1Inward_def
    by (simp add: Let_def foldl_Pass1_child_step[OF assms] fromU_toU_same ne cong: map_cong)
qed

lemma SpatialVec_zero: "((0::Vec3), (0::Vec3)) = 0"
  by (simp add: zero_prod_def)

lemma phiT_vec_zero [simp]: "phiT_vec l 0 = 0"
  by (cases l rule: prod_cases3) (simp add: zero_prod_def)

lemma sdot_zero [simp]: "sdot h 0 = 0"
proof -
  obtain a b c d e f where "h = ((a, b, c), (d, e, f))" by (metis prod_cases3)
  then show ?thesis by (simp add: zero_prod_def)
qed

lemma vecN_sub_zero: "vecN_sub a (map (\<lambda>_. 0) xs) = take (length xs) a"
  unfolding vecN_sub_def
proof (induction xs arbitrary: a)
  case Nil
  then show ?case by simp
next
  case (Cons x xs)
  then show ?case by (cases a) simp_all
qed

lemma vecN_sub_rows_vec_zero: "length a = length G \<Longrightarrow> vecN_sub a (rows_vec G 0) = a"
  by (simp add: rows_vec_def vecN_sub_zero)

lemma crossMat_vec: "mat33_vec (crossMat a) b = cross a b"
  by (cases a rule: prod_cases3, cases b rule: prod_cases3) simp

lemma fromQuat_toQuat: "fromQuat n (toQuat n q v) = v"
  by (cases v rule: prod_cases4) (simp add: fromQuat_def)

lemma toQuat_toQuat: "toQuat n (toQuat n q v) w = toQuat n q w"
  by (cases v rule: prod_cases4, cases w rule: prod_cases4) (rule ext, simp)

lemma toQuat_outside: "j < qIndex n \<or> qIndex n + 3 < j \<Longrightarrow> toQuat n q v j = q j"
  by (cases v rule: prod_cases4) auto

lemma transpose33_uminus: "transpose33 (- A) = - transpose33 A"
proof -
  obtain a b c d e f g h i where "A = ((a, b, c), (d, e, f), (g, h, i))"
    by (metis prod_cases3)
  then show ?thesis by simp
qed

lemma tree_ok_ground:
  "tree_ok seen ns \<Longrightarrow> m \<in> set ns \<Longrightarrow> (nodeClass m = RBGroundBody \<longleftrightarrow> nodeNum m = 0)"
  by (induction ns arbitrary: seen) auto

lemma fromU_ground: "nodeClass n = RBGroundBody \<Longrightarrow> fromU n u = []"
  by (simp add: fromU_def dof_def)

lemma calcZ_inward_Cons:
  "calcZ_inward (n # ns) cc dc F rc = calcZ n cc dc (F (nodeNum n)) (calcZ_inward ns cc dc F rc)"
  by (simp add: calcZ_inward_def)

lemma Pass1_inward_Cons:
  "calcUDotPass1_inward (n # ns) cc dc jf bf st =
     calcUDotPass1Inward n cc dc jf bf (calcUDotPass1_inward ns cc dc jf bf st)"
  by (simp add: calcUDotPass1_inward_def)

lemma pass1_agree:
  assumes "tree_ok seen ns"
    and "\<forall>n \<in> set ns. getAppliedJointForce dc n = fromU n jf"
    and "\<forall>n \<in> set ns. nodeClass n \<noteq> RBGroundBody \<longrightarrow> F (nodeNum n) = bf (nodeNum n)"
  shows "rc_A_GB (calcZ_inward ns cc dc F rc) = rc_A_GB rc
     \<and> (\<forall>m \<in> set ns. nodeClass m \<noteq> RBGroundBody \<longrightarrow>
          rc_Z (calcZ_inward ns cc dc F rc) (nodeNum m)
            = fst (calcUDotPass1_inward ns cc dc jf bf st) (nodeNum m)
        \<and> rc_Gepsilon (calcZ_inward ns cc dc F rc) (nodeNum m)
            = fst (snd (calcUDotPass1_inward ns cc dc jf bf st)) (nodeNum m)
        \<and> fromU m (rc_epsilon (calcZ_inward ns cc dc F rc))
            = fromU m (snd (snd (calcUDotPass1_inward ns cc dc jf bf st)))
        \<and> fromU m (rc_nu (calcZ_inward ns cc dc F rc))
            = matN_vec (getDI dc m) (fromU m (snd (snd (calcUDotPass1_inward ns cc dc jf bf st)))))"
  using assms
proof (induction ns arbitrary: seen)
  case Nil
  then show ?case by (simp add: calcZ_inward_def)
next
  case (Cons n ns)
  define rc1 where "rc1 = calcZ_inward ns cc dc F rc"
  obtain Z1 Ge1 E1 where st1: "calcUDotPass1_inward ns cc dc jf bf st = (Z1, Ge1, E1)"
    by (metis prod_cases3)
  from Cons.prems have ok: "tree_ok (nodeNum n # seen) ns" by simp
  have IH: "rc_A_GB rc1 = rc_A_GB rc"
       "\<And>m. m \<in> set ns \<Longrightarrow> nodeClass m \<noteq> RBGroundBody \<Longrightarrow>
          rc_Z rc1 (nodeNum m) = Z1 (nodeNum m) \<and> rc_Gepsilon rc1 (nodeNum m) = Ge1 (nodeNum m)
          \<and> fromU m (rc_epsilon rc1) = fromU m E1
          \<and> fromU m (rc_nu rc1) = matN_vec (getDI dc m) (fromU m E1)"
    using Cons.IH[OF ok] Cons.prems(2,3) by (simp_all add: rc1_def st1)
  show ?case
  proof (cases "nodeClass n = RBGroundBody")
    case True
    then have n0: "nodeNum n = 0" using Cons.prems(1) by simp
    have nz: "\<And>m. m \<in> set ns \<Longrightarrow> nodeClass m \<noteq> RBGroundBody \<Longrightarrow> nodeNum m \<noteq> 0"
      using tree_ok_ground[OF ok] by blast
    show ?thesis
      using True IH nz
      by (auto simp: calcZ_inward_Cons Pass1_inward_Cons calcZ_def calcUDotPass1Inward_def
          RBGroundBody_calcZ_def RBGroundBody_calcUDotPass1Inward_def rc1_def[symmetric] st1)
  next
    case False
    from Cons.prems(1) False have ch: "set (children n) \<subseteq> nodeNum ` {m \<in> set ns. nodeClass m \<noteq> RBGroundBody}"
      and nn: "nodeNum n \<notin> nodeNum ` set ns"
      and dj: "\<And>m. m \<in> set ns \<Longrightarrow> uslots_disjoint n m"
      by auto
    have self: "nodeNum n \<notin> set (children n)" using ch nn by auto
    have chi: "map (\<lambda>c. phi_vec (cc_Phi cc c) (rc_Z rc1 c + rc_Gepsilon rc1 c)) (children n)
             = map (\<lambda>c. phi_vec (cc_Phi cc c) (Z1 c + Ge1 c)) (children n)"
    proof (rule map_cong[OF refl])
      fix c assume "c \<in> set (children n)"
      then obtain m where "m \<in> set ns" "nodeClass m \<noteq> RBGroundBody" "c = nodeNum m"
        using ch by auto
      then show "phi_vec (cc_Phi cc c) (rc_Z rc1 c + rc_Gepsilon rc1 c)
               = phi_vec (cc_Phi cc c) (Z1 c + Ge1 c)"
        using IH(2) by simp
    qed
    have F: "F (nodeNum n) = bf (nodeNum n)" using Cons.prems(3) False by simp
    have jf: "getAppliedJointForce dc n = fromU n jf" using Cons.prems(2) by simp
    have ne: "nodeNum m \<noteq> nodeNum n" if "m \<in> set ns" for m
    proof
      assume "nodeNum m = nodeNum n"
      then have "nodeNum n \<in> nodeNum ` set ns" using that by (metis imageI)
      then show False using nn by simp
    qed
    show ?thesis
      using False IH ne dj
      by (simp add: calcZ_inward_Cons Pass1_inward_Cons calcZ_def calcUDotPass1Inward_def
          rc1_def[symmetric] st1 Spec_calcZ_closed[OF self] Spec_Pass1_closed[OF self]
          Let_def chi F jf fromU_toU_same fromU_toU_other getDI_def)
  qed
qed

lemma calcAccel_outward_Cons:
  "calcAccel_outward lib (n # ns) mv q cc u dc st =
     calcAccel_outward lib ns mv q cc u dc (calcAccel lib n mv q cc u dc st)"
  by (simp add: calcAccel_outward_def)

lemma Pass2_outward_Cons:
  "calcUDotPass2_outward (n # ns) cc dc E st =
     calcUDotPass2_outward ns cc dc E (calcUDotPass2Outward n cc dc E st)"
  by (simp add: calcUDotPass2_outward_def)

lemma calcAccel_udot_frame:
  "uslots_disjoint n m \<Longrightarrow>
     fromU m (fst (snd (calcAccel lib n mv q cc u dc st))) = fromU m (fst (snd st))"
  by (cases st rule: prod_cases3)
     (simp add: calcAccel_def RBGroundBody_calcAccel_def RigidBodyNodeSpec_calcAccel_def
       Let_def fromU_toU_other)

lemma Pass2_udot_frame:
  "uslots_disjoint n m \<Longrightarrow>
     fromU m (snd (calcUDotPass2Outward n cc dc E st)) = fromU m (snd st)"
  by (cases st)
     (simp add: calcUDotPass2Outward_def RBGroundBody_calcUDotPass2Outward_def
       RigidBodyNodeSpec_calcUDotPass2Outward_def Let_def fromU_toU_other)

lemma uslots_disjoint_sym: "uslots_disjoint n m \<Longrightarrow> uslots_disjoint m n"
  by (auto simp: uslots_disjoint_def)

lemma calcAccel_outward_udot_frame:
  "\<forall>n \<in> set ns. uslots_disjoint m n \<Longrightarrow>
     fromU m (fst (snd (calcAccel_outward lib ns mv q cc u dc st))) = fromU m (fst (snd st))"
  by (induction ns arbitrary: st)
     (simp_all add: calcAccel_outward_def calcAccel_udot_frame uslots_disjoint_sym)

lemma Pass2_outward_udot_frame:
  "\<forall>n \<in> set ns. uslots_disjoint m n \<Longrightarrow>
     fromU m (snd (calcUDotPass2_outward ns cc dc E st)) = fromU m (snd st)"
  by (induction ns arbitrary: st)
     (simp_all add: calcUDotPass2_outward_def Pass2_udot_frame uslots_disjoint_sym)

lemma pass2_agree:
  assumes "tree_ok seen ns"
    and "rc_A_GB rc 0 = 0"
    and "\<forall>k \<in> set seen. k \<noteq> 0 \<longrightarrow> rc_A_GB rc k = A k"
    and "\<forall>m \<in> set ns. nodeClass m \<noteq> RBGroundBody \<longrightarrow>
           fromU m (rc_nu rc) = matN_vec (getDI dc m) (fromU m E)"
  shows "\<forall>m \<in> set ns.
           fromU m (fst (snd (calcAccel_outward lib ns mv q cc u dc (rc, ud, qdd))))
         = fromU m (snd (calcUDotPass2_outward ns cc dc E (A, UD)))"
  using assms
proof (induction ns arbitrary: seen rc ud qdd A UD)
  case Nil
  then show ?case by simp
next
  case (Cons n ns)
  from Cons.prems(1) have ok: "tree_ok (nodeNum n # seen) ns"
    and dj: "\<forall>m \<in> set ns. uslots_disjoint n m" by simp_all
  obtain rc1 ud1 qdd1 where st1: "calcAccel lib n mv q cc u dc (rc, ud, qdd) = (rc1, ud1, qdd1)"
    by (metis prod_cases3)
  obtain A1 UD1 where ar1: "calcUDotPass2Outward n cc dc E (A, UD) = (A1, UD1)"
    by (metis prod.exhaust)
  have step: "rc_A_GB rc1 0 = 0 \<and> (\<forall>k \<in> set (nodeNum n # seen). k \<noteq> 0 \<longrightarrow> rc_A_GB rc1 k = A1 k)
      \<and> rc_nu rc1 = rc_nu rc \<and> fromU n ud1 = fromU n UD1"
  proof (cases "nodeClass n = RBGroundBody")
    case True
    then have n0: "nodeNum n = 0" using Cons.prems(1) by simp
    show ?thesis
      using st1 ar1 True n0 Cons.prems(2,3)
      by (auto simp: calcAccel_def RBGroundBody_calcAccel_def calcUDotPass2Outward_def
          RBGroundBody_calcUDotPass2Outward_def fromU_ground)
  next
    case False
    then have n0: "nodeNum n \<noteq> 0" and par: "parent n = 0 \<or> parent n \<in> set seen"
      using Cons.prems(1) by simp_all
    have nu: "getNu rc n = matN_vec (getDI dc n) (fromU n E)"
      using Cons.prems(4) False by (simp add: getNu_def)
    have al: "phiT_vec (getPhi cc n) (rc_A_GB rc (parent n))
        = (if parent n = 0 then (0, 0) else phiT_vec (getPhi cc n) (A (parent n)))"
      using par Cons.prems(2,3) by (auto simp: SpatialVec_zero)
    show ?thesis
      using st1 ar1 False n0 Cons.prems(2,3)
      by (auto simp: calcAccel_def RigidBodyNodeSpec_calcAccel_def calcUDotPass2Outward_def
          RigidBodyNodeSpec_calcUDotPass2Outward_def Let_def nu al fromU_toU_same getDI_def)
  qed
  have nu': "\<forall>m \<in> set ns. nodeClass m \<noteq> RBGroundBody \<longrightarrow>
           fromU m (rc_nu rc1) = matN_vec (getDI dc m) (fromU m E)"
    using Cons.prems(4) step by simp
  have IH: "\<forall>m \<in> set ns.
           fromU m (fst (snd (calcAccel_outward lib ns mv q cc u dc (rc1, ud1, qdd1))))
         = fromU m (snd (calcUDotPass2_outward ns cc dc E (A1, UD1)))"
    using Cons.IH[OF ok _ _ nu'] step by blast
  have here: "fromU n (fst (snd (calcAccel_outward lib ns mv q cc u dc (rc1, ud1, qdd1))))
         = fromU n (snd (calcUDotPass2_outward ns cc dc E (A1, UD1)))"
    using dj step by (simp add: calcAccel_outward_udot_frame Pass2_outward_udot_frame)
  show ?case
    using IH here by (simp add: calcAccel_outward_Cons Pass2_outward_Cons st1 ar1)
qed

lemma udot_paths_agree:
  assumes "tree_ok [] nodes"
    and "\<forall>n \<in> set nodes. getAppliedJointForce dc n = fromU n jointForces"
    and "\<forall>n \<in> set nodes. nodeClass n \<noteq> RBGroundBody \<longrightarrow>
           spatialForces (nodeNum n) = bodyForces (nodeNum n)"
  shows "\<forall>n \<in> set nodes.
           fromU n (udot_by_cache lib nodes mv q cc u dc spatialForces (rc, allUdot, allQdotdot))
         = fromU n (udot_by_arrays nodes cc dc jointForces bodyForces tmp (allA_GB, allUDot))"
proof -
  let ?rc0 = "SBReactionCache_allocate rc"
  let ?rc1 = "calcZ_inward nodes cc dc spatialForces ?rc0"
  let ?E = "snd (snd (calcUDotPass1_inward nodes cc dc jointForces bodyForces tmp))"
  have p1: "rc_A_GB ?rc1 = rc_A_GB ?rc0"
    "\<forall>m \<in> set nodes. nodeClass m \<noteq> RBGroundBody \<longrightarrow>
        fromU m (rc_nu ?rc1) = matN_vec (getDI dc m) (fromU m ?E)"
    using pass1_agree[OF assms, of cc ?rc0 tmp] by simp_all
  have "rc_A_GB ?rc0 0 = 0" by (simp add: SBReactionCache_allocate_def SpatialVec_zero)
  then have z: "rc_A_GB ?rc1 0 = 0" by (simp only: p1(1))
  have "\<forall>m \<in> set nodes.
           fromU m (fst (snd (calcAccel_outward lib nodes mv q cc u dc (?rc1, allUdot, allQdotdot))))
         = fromU m (snd (calcUDotPass2_outward nodes cc dc ?E (allA_GB, allUDot)))"
    by (rule pass2_agree[OF assms(1) z _ p1(2)]) simp
  then show ?thesis by (simp add: udot_by_cache_def udot_by_arrays_def)
qed

lemma foldl_calcZ_child_step_A_GB:
  "rc_A_GB (foldl (calcZ_child_step cc n) rc cs) = rc_A_GB rc"
  by (induction cs arbitrary: rc) (simp_all add: calcZ_child_step_def)

lemma calcZ_A_GB: "rc_A_GB (calcZ n cc dc F rc) = rc_A_GB rc"
  by (simp add: calcZ_def RBGroundBody_calcZ_def RigidBodyNodeSpec_calcZ_def Let_def
      foldl_calcZ_child_step_A_GB)

lemma calcZ_inward_A_GB: "rc_A_GB (calcZ_inward ns cc dc F rc) = rc_A_GB rc"
  by (induction ns) (simp_all add: calcZ_inward_def calcZ_A_GB)

lemma calcAccel_A_GB_0:
  "nodeClass n \<noteq> RBGroundBody \<longrightarrow> nodeNum n \<noteq> 0 \<Longrightarrow>
     rc_A_GB (fst (calcAccel lib n mv q cc u dc st)) 0 = rc_A_GB (fst st) 0"
  by (cases st rule: prod_cases3)
     (simp add: calcAccel_def RBGroundBody_calcAccel_def RigidBodyNodeSpec_calcAccel_def Let_def)

lemma calcAccel_outward_A_GB_0:
  "\<forall>n \<in> set ns. nodeClass n \<noteq> RBGroundBody \<longrightarrow> nodeNum n \<noteq> 0 \<Longrightarrow>
     rc_A_GB (fst (calcAccel_outward lib ns mv q cc u dc st)) 0 = rc_A_GB (fst st) 0"
  by (induction ns arbitrary: st) (simp_all add: calcAccel_outward_def calcAccel_A_GB_0)

lemma cols_vec_Nil [simp]: "cols_vec [] e = 0"
  by (simp add: cols_vec_def)


lemma length_smat_Ht [simp]: "length (smat_Ht P H) = length H"
  by (simp add: smat_Ht_def)

lemma length_cols_matN [simp]: "length (cols_matN C M) = length C"
  by (simp add: cols_matN_def)

lemma updG_fields [simp]:
  "dc_P (updG dc n G) = dc_P dc"
  "dc_TauBar (updG dc n G) = dc_TauBar dc"
  "dc_Psi (updG dc n G) = dc_Psi dc"
  "storageForD (updG dc n G) = storageForD dc"
  "storageForDI (updG dc n G) = storageForDI dc"
  by (simp_all add: updG_def)

lemma getG_fields [simp]:
  "getG (dc\<lparr>dc_TauBar := x\<rparr>) n = getG dc n"
  "getG (dc\<lparr>dc_Psi := y\<rparr>) n = getG dc n"
  by (simp_all add: getG_def)

lemma toU_outside: "j < uIndex n \<or> uIndex n + int (dof n) \<le> j \<Longrightarrow> toU n u v j = u j"
  by (auto simp: toU_def)

lemma fromQ_toQ_same: "length v = dof n \<Longrightarrow> fromQ n (toQ n q v) = v"
  by (auto simp: fromQ_def toQ_def intro!: nth_equalityI)

lemma toQ_outside: "j < qIndex n \<or> qIndex n + int (dof n) \<le> j \<Longrightarrow> toQ n q v j = q j"
  by (auto simp: toQ_def)

lemma fromUVec3_toU_0:
  "3 \<le> dof n \<Longrightarrow> fromUVec3 n (toU n u v) 0 = (v ! 0, v ! 1, v ! 2)"
  by (simp add: fromUVec3_def toU_def)

lemma fromUVec3_toU_3:
  "6 \<le> dof n \<Longrightarrow> fromUVec3 n (toU n u v) 3 = (v ! 3, v ! 4, v ! 5)"
  by (simp add: fromUVec3_def toU_def)

lemma calcQDotDot_default:
  "nodeClass n \<noteq> RBNodeRotate3 \<and> nodeClass n \<noteq> RBNodeTranslateRotate3 \<Longrightarrow>
     calcQDotDot lib n mv q cc u udot qdotdot = toQ n qdotdot (fromU n udot)"
  by (simp add: calcQDotDot_def)

lemma toQVec3_apply:
  "toQVec3 n q offs v j =
     (if j = qIndex n + offs + 2 then snd (snd v)
      else if j = qIndex n + offs + 1 then fst (snd v)
      else if j = qIndex n + offs then fst v else q j)"
  by (cases v rule: prod_cases3) simp

lemma toQuat_apply:
  "toQuat n q v j =
     (if j = qIndex n + 3 then snd (snd (snd v))
      else if j = qIndex n + 2 then fst (snd (snd v))
      else if j = qIndex n + 1 then fst (snd v)
      else if j = qIndex n then fst v else q j)"
  by (cases v rule: prod_cases4) simp

lemma calcQDotDot_ball_euler:
  assumes "nodeClass n = RBNodeRotate3" "getUseEulerAngles mv"
  shows "fromQVec3 n (calcQDotDot lib n mv q cc u udot qdotdot) 0
           = convertAngVelDotToBodyFixed123DotDot lib (fromQVec3 n q 0)
               (mat33_vec (transpose33 (Transform_R (getX_JbJ cc n))) (fromUVec3 n u 0))
               (mat33_vec (transpose33 (Transform_R (getX_JbJ cc n))) (fromUVec3 n udot 0))"
    and "calcQDotDot lib n mv q cc u udot qdotdot (qIndex n + 3) = 0"
    and "j < qIndex n \<or> qIndex n + 3 < j \<Longrightarrow>
           calcQDotDot lib n mv q cc u udot qdotdot j = qdotdot j"
  using assms
  by (auto simp: calcQDotDot_def Let_def fromQVec3_def toQVec3_apply toQuat_apply)

lemma calcQDotDot_ball_quat:
  assumes "nodeClass n = RBNodeRotate3" "\<not> getUseEulerAngles mv"
  shows "fromQuat n (calcQDotDot lib n mv q cc u udot qdotdot)
           = convertAngVelDotToQuaternionDotDot lib (fromQuat n q) (fromUVec3 n u 0)
               (fromUVec3 n udot 0)"
    and "j < qIndex n \<or> qIndex n + 3 < j \<Longrightarrow>
           calcQDotDot lib n mv q cc u udot qdotdot j = qdotdot j"
  using assms by (simp_all add: calcQDotDot_def Let_def fromQuat_toQuat toQuat_outside)

lemma calcQDotDot_free_euler:
  assumes "nodeClass n = RBNodeTranslateRotate3" "getUseEulerAngles mv"
  shows "fromQVec3 n (calcQDotDot lib n mv q cc u udot qdotdot) 0
           = convertAngVelDotToBodyFixed123DotDot lib (fromQVec3 n q 0)
               (mat33_vec (transpose33 (Transform_R (getX_JbJ cc n))) (fromUVec3 n u 0))
               (mat33_vec (transpose33 (Transform_R (getX_JbJ cc n))) (fromUVec3 n udot 0))"
    and "fromQVec3 n (calcQDotDot lib n mv q cc u udot qdotdot) 3 = fromUVec3 n udot 3"
    and "calcQDotDot lib n mv q cc u udot qdotdot (qIndex n + 6) = 0"
    and "j < qIndex n \<or> qIndex n + 6 < j \<Longrightarrow>
           calcQDotDot lib n mv q cc u udot qdotdot j = qdotdot j"
  using assms
  by (auto simp: calcQDotDot_def Let_def fromQVec3_def toQVec3_apply)

lemma calcQDotDot_free_quat:
  assumes "nodeClass n = RBNodeTranslateRotate3" "\<not> getUseEulerAngles mv"
  shows "fromQuat n (calcQDotDot lib n mv q cc u udot qdotdot)
           = convertAngVelDotToQuaternionDotDot lib (fromQuat n q) (fromUVec3 n u 0)
               (fromUVec3 n udot 0)"
    and "fromQVec3 n (calcQDotDot lib n mv q cc u udot qdotdot) 4 = fromUVec3 n udot 3"
    and "j < qIndex n \<or> qIndex n + 6 < j \<Longrightarrow>
           calcQDotDot lib n mv q cc u udot qdotdot j = qdotdot j"
  using assms
  by (auto simp: calcQDotDot_def Let_def fromQVec3_def fromQuat_def toQVec3_apply toQuat_apply)


lemma length_getNu: "length (getNu rc n) = dof n"
  by (simp add: getNu_def fromU_def)

lemma Spec_calcAccel_fields:
  "nodeClass n \<noteq> RBGroundBody \<Longrightarrow>
     calcAccel lib n mv allQ cc allU dc (rc, allUdot, allQdotdot)
       = (rc\<lparr>rc_A_GB := (rc_A_GB rc)
              (nodeNum n := phiT_vec (getPhi cc n) (rc_A_GB rc (parent n))
                 + cols_vec (getH cc n)
                     (vecN_sub (getNu rc n)
                        (rows_vec (getG dc n) (phiT_vec (getPhi cc n) (rc_A_GB rc (parent n)))))
                 + getCoriolisAcceleration dc n)\<rparr>,
          toU n allUdot
            (vecN_sub (getNu rc n)
               (rows_vec (getG dc n) (phiT_vec (getPhi cc n) (rc_A_GB rc (parent n))))),
          calcQDotDot lib n mv allQ cc allU
            (toU n allUdot
               (vecN_sub (getNu rc n)
                  (rows_vec (getG dc n) (phiT_vec (getPhi cc n) (rc_A_GB rc (parent n))))))
            allQdotdot)"
  by (simp add: calcAccel_def RigidBodyNodeSpec_calcAccel_def Let_def fromU_toU_same
      length_getNu)

section \<open>Algebra of spatial matrices\<close>

lemma Vec3_zero: "(0::Vec3) = (0, 0, 0)"
  by (simp add: zero_prod_def)

lemma Mat33_zero: "(0::Mat33) = ((0, 0, 0), (0, 0, 0), (0, 0, 0))"
  by (simp add: zero_prod_def)




lemma mat33_vec_zero_left: "mat33_vec 0 v = 0"
  by (cases v rule: prod_cases3) (simp add: Mat33_zero Vec3_zero)

lemma mat33_vec_zero_right: "mat33_vec A 0 = 0"
proof -
  obtain a b c d e f g h i where A: "A = ((a, b, c), (d, e, f), (g, h, i))" by (metis prod_cases3)
  show ?thesis by (simp add: A Vec3_zero)
qed

lemma mat33_vec_one: "mat33_vec (Mat33_diag 1) v = v"
  by (cases v rule: prod_cases3) (simp add: Mat33_diag_def)






lemma mat33_mul_zero_right: "mat33_mul M 0 = 0"
proof -
  obtain m1 m2 m3 m4 m5 m6 m7 m8 m9 where M: "M = ((m1, m2, m3), (m4, m5, m6), (m7, m8, m9))"
    by (metis prod_cases3)
  show ?thesis by (simp add: M Mat33_zero)
qed

lemma mat33_mul_one_right: "mat33_mul M (Mat33_diag 1) = M"
proof -
  obtain m1 m2 m3 m4 m5 m6 m7 m8 m9 where M: "M = ((m1, m2, m3), (m4, m5, m6), (m7, m8, m9))"
    by (metis prod_cases3)
  show ?thesis by (simp add: M Mat33_diag_def)
qed




lemma transpose33_zero: "transpose33 0 = 0"
  by (simp add: Mat33_zero)

lemma transpose33_one: "transpose33 (Mat33_diag 1) = Mat33_diag 1"
  by (simp add: Mat33_diag_def)








lemma SpatialMat_cases:
  obtains A B C D where "M = ((A, B), (C, D))"
  by (metis prod.exhaust)





lemma smat_vec_zero_right: "smat_vec M 0 = 0"
proof -
  obtain A B C D where M: "M = ((A, B), (C, D))" by (rule SpatialMat_cases)
  have "smat_vec M ((0::Vec3), (0::Vec3)) = ((0::Vec3), (0::Vec3))"
    by (simp add: M mat33_vec_zero_right)
  then show ?thesis unfolding SpatialVec_zero .
qed































section \<open>The shift operator as a spatial matrix\<close>

text \<open>The four products written out for \<^verbatim>\<open>PhiMatrix\<close> are the products with the spatial
  matrix it stands for, and with its transpose.\<close>

lemma mat33_mul_one_left: "mat33_mul (Mat33_diag 1) M = M"
proof -
  obtain m1 m2 m3 m4 m5 m6 m7 m8 m9 where M: "M = ((m1, m2, m3), (m4, m5, m6), (m7, m8, m9))"
    by (metis prod_cases3)
  show ?thesis by (simp add: M Mat33_diag_def)
qed

lemma mat33_mul_zero_left: "mat33_mul 0 M = 0"
proof -
  obtain m1 m2 m3 m4 m5 m6 m7 m8 m9 where M: "M = ((m1, m2, m3), (m4, m5, m6), (m7, m8, m9))"
    by (metis prod_cases3)
  show ?thesis by (simp add: M Mat33_zero)
qed

lemma mat33_vec_transpose_crossMat: "mat33_vec (transpose33 (crossMat l)) w = cross w l"
  by (cases l rule: prod_cases3, cases w rule: prod_cases3) simp

lemma mat33_mul_transpose_crossMat:
  "mat33_mul B (transpose33 (crossMat l)) = - mat33_mul B (crossMat l)"
proof -
  obtain b1 b2 b3 b4 b5 b6 b7 b8 b9 where B: "B = ((b1, b2, b3), (b4, b5, b6), (b7, b8, b9))"
    by (metis prod_cases3)
  show ?thesis by (cases l rule: prod_cases3) (simp add: B)
qed

lemma phi_vec_is_product: "phi_vec l v = smat_vec (PhiMatrix_full l) v"
proof -
  obtain w u where v: "v = (w, u)" by (cases v)
  show ?thesis
    by (simp add: v PhiMatrix_full_def mat33_vec_one mat33_vec_zero_left crossMat_vec)
qed

lemma phiT_vec_is_product: "phiT_vec l v = smat_vec (smat_transpose (PhiMatrix_full l)) v"
proof -
  obtain w u where v: "v = (w, u)" by (cases v)
  show ?thesis
    by (simp add: v PhiMatrix_full_def mat33_vec_one mat33_vec_zero_left transpose33_one
        transpose33_zero mat33_vec_transpose_crossMat add.commute)
qed

lemma phi_smat_is_product: "phi_smat l M = smat_mul (PhiMatrix_full l) M"
proof -
  obtain A B C D where M: "M = ((A, B), (C, D))" by (rule SpatialMat_cases)
  show ?thesis by (simp add: M PhiMatrix_full_def mat33_mul_one_left mat33_mul_zero_left)
qed

lemma smat_phiT_is_product: "smat_phiT M l = smat_mul M (smat_transpose (PhiMatrix_full l))"
proof -
  obtain A B C D where M: "M = ((A, B), (C, D))" by (rule SpatialMat_cases)
  show ?thesis
    by (simp add: M PhiMatrix_full_def transpose33_one transpose33_zero mat33_mul_one_right
        mat33_mul_zero_right mat33_mul_transpose_crossMat)
qed

section \<open>What the inertia recursion writes for one node\<close>






section \<open>Slot counters\<close>

lemma sint_advance:
  "sint x + int k < 2147483648 \<Longrightarrow> sint ((x :: 32 word) + of_nat k) = sint x + int k"
proof -
  assume h: "sint x + int k < 2147483648"
  have lo: "- 2147483648 \<le> sint x" using sint_ge[of x] by simp
  have hi: "sint x < 2147483648" using sint_lt[of x] by simp
  have a: "(of_nat k :: 32 word) = word_of_int (int k)" by simp
  have b: "sint (word_of_int (int k) :: 32 word) = signed_take_bit 31 (int k)"
    by (simp only: sint_sbintrunc') simp
  have c: "signed_take_bit 31 (sint x) = sint x"
    by (rule signed_take_bit_int_eq_self) (use lo hi in simp_all)
  have "sint (x + of_nat k) = signed_take_bit 31 (sint x + signed_take_bit 31 (int k))"
    unfolding a by (simp only: sint_word_ariths b) simp
  also have "\<dots> = signed_take_bit 31 (signed_take_bit 31 (sint x) + signed_take_bit 31 (int k))"
    by (simp only: c)
  also have "\<dots> = signed_take_bit 31 (sint x + int k)"
    by (rule signed_take_bit_add)
  also have "\<dots> = sint x + int k"
    by (rule signed_take_bit_int_eq_self) (use lo h in simp_all)
  finally show ?thesis .
qed

lemma updateSlots_no_overflow:
  "updateSlots c (nextU, nextUSq, nextQ) = (nU, nUSq, nQ) \<Longrightarrow>
     (sint nextU + int (getDOF c) < 2147483648 \<longrightarrow> sint nU = sint nextU + int (getDOF c))
   \<and> (sint nextUSq + int (getDOF c) * int (getDOF c) < 2147483648 \<longrightarrow>
         sint nUSq = sint nextUSq + int (getDOF c) * int (getDOF c))
   \<and> (sint nextQ + int (getMaxNQ c) < 2147483648 \<longrightarrow> sint nQ = sint nextQ + int (getMaxNQ c))"
  using sint_advance[of nextU "getDOF c"] sint_advance[of nextUSq "getDOF c * getDOF c"]
    sint_advance[of nextQ "getMaxNQ c"]
  by (auto simp: updateSlots_def)

section \<open>Digits, square roots and rounding\<close>

lemma bitlen_nonneg: "0 \<le> bitlen m"
  by (induction m rule: bitlen.induct) (subst bitlen.simps, simp)

lemma bitlen_bounds: "0 < m \<Longrightarrow> 2 ^ nat (bitlen m - 1) \<le> m \<and> m < 2 ^ nat (bitlen m)"
proof (induction m rule: bitlen.induct)
  case (1 m)
  show ?case
  proof (cases "m = 1")
    case True
    then show ?thesis by (simp add: bitlen.simps[of 1] bitlen.simps[of 0])
  next
    case False
    with 1(2) have h: "0 < m div 2" by simp
    with 1(1) 1(2) have ih: "2 ^ nat (bitlen (m div 2) - 1) \<le> m div 2"
      "m div 2 < 2 ^ nat (bitlen (m div 2))" by simp_all
    have pos: "0 < bitlen (m div 2)"
      using h bitlen_nonneg[of "m div 2 div 2"] by (subst bitlen.simps) simp
    have b: "bitlen m = 1 + bitlen (m div 2)" using 1(2) by (subst bitlen.simps) simp
    have e1: "nat (bitlen m - 1) = Suc (nat (bitlen (m div 2) - 1))" using b pos by simp
    have e2: "nat (bitlen m) = Suc (nat (bitlen (m div 2)))" using b pos by simp
    have m1: "2 * (m div 2) \<le> m" and m2: "m \<le> 2 * (m div 2) + 1" by presburger+
    have "m div 2 + 1 \<le> 2 ^ nat (bitlen (m div 2))" using ih(2) by simp
    then have "m < 2 * 2 ^ nat (bitlen (m div 2))" using m2 by linarith
    moreover have "2 * 2 ^ nat (bitlen (m div 2) - 1) \<le> m" using ih(1) m1 by linarith
    ultimately show ?thesis unfolding e1 e2 by simp
  qed
qed

lemma isqrt_bounds: "0 \<le> n \<Longrightarrow> 0 \<le> isqrt n \<and> isqrt n * isqrt n \<le> n \<and> n < (isqrt n + 1) * (isqrt n + 1)"
proof (induction n rule: isqrt.induct)
  case (1 n)
  show ?case
  proof (cases "n < 1")
    case True
    with 1(2) have "n = 0" by simp
    then show ?thesis by (simp add: isqrt.simps[of 0])
  next
    case False
    define r where "r = isqrt (n div 4)"
    from False 1 have ih: "0 \<le> r" "r * r \<le> n div 4" "n div 4 < (r + 1) * (r + 1)"
      by (simp_all add: r_def)
    have i: "isqrt n = (if (2 * r + 1) * (2 * r + 1) \<le> n then 2 * r + 1 else 2 * r)"
      using False by (subst isqrt.simps) (simp add: r_def Let_def)
    have lo: "(2 * r) * (2 * r) \<le> n" using ih(2) by (simp add: algebra_simps) 
    have "n div 4 + 1 \<le> (r + 1) * (r + 1)" using ih(3) by simp
    then have "4 * (n div 4) + 4 \<le> (2 * r + 2) * (2 * r + 2)" by (simp add: algebra_simps)
    moreover have "n < 4 * (n div 4) + 4" by simp
    ultimately have hi: "n < (2 * r + 2) * (2 * r + 2)" by simp
    show ?thesis
      using ih(1) lo hi by (simp add: i algebra_simps)
  qed
qed

lemma round_double_exact:
  assumes "2 ^ 52 \<le> m" "m < 2 ^ 53" "- 1074 \<le> e" "e \<le> 971"
  shows "round_double s m e = Finite s m e"
proof -
  have pos: "0 < m" using assms(1) by simp
  from bitlen_bounds[OF pos] have b: "2 ^ nat (bitlen m - 1) \<le> m" "m < 2 ^ nat (bitlen m)"
    by simp_all
  have "(2::int) ^ 52 < 2 ^ nat (bitlen m)" using assms(1) b(2) by linarith
  then have "52 < nat (bitlen m)" by (simp only: power_strict_increasing_iff) 
  moreover have "(2::int) ^ nat (bitlen m - 1) < 2 ^ 53" using assms(2) b(1) by linarith
  then have "nat (bitlen m - 1) < 53" by (simp only: power_strict_increasing_iff)
  ultimately have "bitlen m = 53" by linarith
  then show ?thesis
    using assms pos by (simp add: round_double_def Let_def)
qed

lemma ex_norm_once:
  "fnorm4 (double_of_int 1, double_of_int 2, double_of_int 3, double_of_int 4)
     = Finite False 6166807764706703 (- 50)"
  by code_simp

lemma ex_norm_twice:
  "fnorm4 (Finite False 6577928282353816 (- 55), Finite False 6577928282353816 (- 54),
           Finite False 4933446211765362 (- 53), Finite False 6577928282353816 (- 53))
     = Finite False 9007199254740991 (- 53)"
  by code_simp

lemma double_of_int_1: "double_of_int 1 = Finite False 4503599627370496 (- 52)"
  by code_simp

lemma ex_normalize_once:
  "fdiv4 (double_of_int 1, double_of_int 2, double_of_int 3, double_of_int 4)
         (fnorm4 (double_of_int 1, double_of_int 2, double_of_int 3, double_of_int 4))
     = (Finite False 6577928282353816 (- 55), Finite False 6577928282353816 (- 54),
        Finite False 4933446211765362 (- 53), Finite False 6577928282353816 (- 53))"
  by code_simp

lemma ex_normalize_twice:
  "fdiv4 (Finite False 6577928282353816 (- 55), Finite False 6577928282353816 (- 54),
          Finite False 4933446211765362 (- 53), Finite False 6577928282353816 (- 53))
         (fnorm4 (Finite False 6577928282353816 (- 55), Finite False 6577928282353816 (- 54),
                  Finite False 4933446211765362 (- 53), Finite False 6577928282353816 (- 53)))
     = (Finite False 6577928282353817 (- 55), Finite False 6577928282353817 (- 54),
        Finite False 4933446211765363 (- 53), Finite False 6577928282353817 (- 53))"
  by code_simp

section \<open>The claims\<close>



text \<open>
  Claim C2. For a node other than ground that is not its own child, \<^verbatim>\<open>calcZ\<close> sets \<open>z\<close> to
  the centrifugal force minus the applied spatial force plus the sum over the children of
  the child's \<open>Phi\<close> applied to the child's \<open>z + Gepsilon\<close>, then
  \<open>epsilon = appliedJointForce - H * z\<close>, \<open>nu = DI * epsilon\<close> and \<open>Gepsilon = G * epsilon\<close>.
  The ground body's \<^verbatim>\<open>calcZ\<close> returns the reaction cache unchanged.
\<close>

theorem calcZ_formulas:
  "(nodeClass n \<noteq> RBGroundBody \<and> nodeNum n \<notin> set (children n) \<longrightarrow>
     (let rc' = calcZ n cc dc spatialForce rc;
          z = getCentrifugalForces dc n - spatialForce
                + sum_list (map (\<lambda>c. phi_vec (cc_Phi cc c) (rc_Z rc c + rc_Gepsilon rc c))
                             (children n));
          epsilon = vecN_sub (getAppliedJointForce dc n) (rows_vec (getH cc n) z)
      in getZ rc' n = z
         \<and> getEpsilon rc' n = epsilon
         \<and> getNu rc' n = matN_vec (getDI dc n) epsilon
         \<and> getGepsilon rc' n = cols_vec (getG dc n) epsilon))
   \<and> (nodeClass n = RBGroundBody \<longrightarrow> calcZ n cc dc spatialForce rc = rc)"
  by (simp add: calcZ_def RBGroundBody_calcZ_def Spec_calcZ_closed Let_def getZ_def
      getEpsilon_def getNu_def getGepsilon_def getAppliedJointForce_def getDI_def fromU_toU_same)

theorem calcZ_formulas_witness:
  "nodeClass ex_pin \<noteq> RBGroundBody \<and> nodeNum ex_pin \<notin> set (children ex_pin)
   \<and> getZ (calcZ ex_pin ex_cc ex_dc 0 ex_rc) ex_pin = ((1, - 1, 0), (0, 0, 1))
   \<and> getEpsilon (calcZ ex_pin ex_cc ex_dc 0 ex_rc) ex_pin = [4]
   \<and> getNu (calcZ ex_pin ex_cc ex_dc 0 ex_rc) ex_pin = [2]
   \<and> getGepsilon (calcZ ex_pin ex_cc ex_dc 0 ex_rc) ex_pin = ((0, 0, 4), (0, 0, 0))
   \<and> nodeClass ex_ground = RBGroundBody
   \<and> calcZ ex_ground ex_cc ex_dc 0 ex_rc = ex_rc"
  using calcZ_formulas[of ex_pin ex_cc ex_dc 0 ex_rc] calcZ_formulas[of ex_ground ex_cc ex_dc 0 ex_rc]
  by (simp add: ex_defs Let_def getCentrifugalForces_def getAppliedJointForce_def getH_def
      getDI_def getG_def fromU_def fromUSq_def dof_def vecN_sub_def rows_vec_def matN_vec_def
      cols_vec_def zero_prod_def)

text \<open>
  Claim C3. For a node other than ground, \<^verbatim>\<open>calcAccel\<close> writes
  \<open>udot = nu - ~G * (~Phi * A_GB(parent))\<close> to the node's slots of \<^verbatim>\<open>allUdot\<close> and
  \<open>A_GB = ~Phi * A_GB(parent) + ~H * udot + coriolisAcceleration\<close> to the node's entry of the
  reaction cache, and leaves the other slots and entries as they are. \<^verbatim>\<open>allQdotdot\<close> is what
  \<^verbatim>\<open>calcQDotDot\<close> of the node's class makes of the new \<^verbatim>\<open>allUdot\<close>, read back slot by slot:
  for the classes without quaternions the node's \<open>q\<close> slots hold \<open>udot\<close>; for the ball, the
  first three slots hold the Euler-angle conversion of \<open>~R_JbJ * w\<close> and \<open>~R_JbJ * wdot\<close> and
  the fourth holds 0 in Euler mode, and the four slots hold the quaternion conversion of \<open>w\<close>
  and \<open>wdot\<close> in quaternion mode, with \<open>w\<close> the first three of the node's \<open>u\<close> and \<open>wdot\<close> the
  first three of \<open>udot\<close>; for the free joint the same, followed by the last three of \<open>udot\<close>
  (and then by 0 in Euler mode). Slots of \<^verbatim>\<open>allQdotdot\<close> outside the node's are unchanged.
  The parent's acceleration is read from the reaction cache; where that entry is zero,
  \<open>udot = nu\<close> and \<open>A_GB = ~H * nu + coriolisAcceleration\<close>. That is so for every node whose
  parent is ground when \<^verbatim>\<open>calcAccel\<close> is called in an outward pass after an inward pass of
  \<^verbatim>\<open>calcZ\<close> on an allocated reaction cache: no call before it writes the entry of node 0.
\<close>

theorem calcAccel_formulas:
  "(nodeClass n \<noteq> RBGroundBody \<longrightarrow>
     (case calcAccel lib n mv allQ cc allU dc (rc, allUdot, allQdotdot) of
        (rc', allUdot', allQdotdot') \<Rightarrow>
          (let alphap = phiT_vec (getPhi cc n) (rc_A_GB rc (parent n));
               udot = vecN_sub (getNu rc n) (rows_vec (getG dc n) alphap);
               R_JbJ = Transform_R (getX_JbJ cc n);
               w = fromUVec3 n allU 0;
               wdot = fromUVec3 n allUdot' 0;
               vdot = fromUVec3 n allUdot' 3
           in fromU n allUdot' = udot
              \<and> (\<forall>j. j < uIndex n \<or> uIndex n + int (dof n) \<le> j \<longrightarrow> allUdot' j = allUdot j)
              \<and> getA_GB rc' n = alphap + cols_vec (getH cc n) udot + getCoriolisAcceleration dc n
              \<and> (\<forall>k. k \<noteq> nodeNum n \<longrightarrow> rc_A_GB rc' k = rc_A_GB rc k)
              \<and> allQdotdot' = calcQDotDot lib n mv allQ cc allU allUdot' allQdotdot
              \<and> (nodeClass n \<noteq> RBNodeRotate3 \<and> nodeClass n \<noteq> RBNodeTranslateRotate3 \<longrightarrow>
                   fromQ n allQdotdot' = udot
                   \<and> (\<forall>j. j < qIndex n \<or> qIndex n + int (dof n) \<le> j \<longrightarrow>
                          allQdotdot' j = allQdotdot j))
              \<and> (nodeClass n = RBNodeRotate3 \<or> nodeClass n = RBNodeTranslateRotate3 \<longrightarrow>
                   wdot = (udot ! 0, udot ! 1, udot ! 2))
              \<and> (nodeClass n = RBNodeTranslateRotate3 \<longrightarrow> vdot = (udot ! 3, udot ! 4, udot ! 5))
              \<and> (nodeClass n = RBNodeRotate3 \<and> getUseEulerAngles mv \<longrightarrow>
                   fromQVec3 n allQdotdot' 0
                     = convertAngVelDotToBodyFixed123DotDot lib (fromQVec3 n allQ 0)
                         (mat33_vec (transpose33 R_JbJ) w) (mat33_vec (transpose33 R_JbJ) wdot)
                   \<and> allQdotdot' (qIndex n + 3) = 0
                   \<and> (\<forall>j. j < qIndex n \<or> qIndex n + 3 < j \<longrightarrow> allQdotdot' j = allQdotdot j))
              \<and> (nodeClass n = RBNodeRotate3 \<and> \<not> getUseEulerAngles mv \<longrightarrow>
                   fromQuat n allQdotdot'
                     = convertAngVelDotToQuaternionDotDot lib (fromQuat n allQ) w wdot
                   \<and> (\<forall>j. j < qIndex n \<or> qIndex n + 3 < j \<longrightarrow> allQdotdot' j = allQdotdot j))
              \<and> (nodeClass n = RBNodeTranslateRotate3 \<and> getUseEulerAngles mv \<longrightarrow>
                   fromQVec3 n allQdotdot' 0
                     = convertAngVelDotToBodyFixed123DotDot lib (fromQVec3 n allQ 0)
                         (mat33_vec (transpose33 R_JbJ) w) (mat33_vec (transpose33 R_JbJ) wdot)
                   \<and> fromQVec3 n allQdotdot' 3 = vdot
                   \<and> allQdotdot' (qIndex n + 6) = 0
                   \<and> (\<forall>j. j < qIndex n \<or> qIndex n + 6 < j \<longrightarrow> allQdotdot' j = allQdotdot j))
              \<and> (nodeClass n = RBNodeTranslateRotate3 \<and> \<not> getUseEulerAngles mv \<longrightarrow>
                   fromQuat n allQdotdot'
                     = convertAngVelDotToQuaternionDotDot lib (fromQuat n allQ) w wdot
                   \<and> fromQVec3 n allQdotdot' 4 = vdot
                   \<and> (\<forall>j. j < qIndex n \<or> qIndex n + 6 < j \<longrightarrow> allQdotdot' j = allQdotdot j))
              \<and> (rc_A_GB rc (parent n) = (0, 0) \<longrightarrow>
                   fromU n allUdot' = getNu rc n
                   \<and> getA_GB rc' n = cols_vec (getH cc n) (getNu rc n)
                                      + getCoriolisAcceleration dc n))))
   \<and> (nodeClass n \<noteq> RBGroundBody \<and> parent n = 0
        \<and> (\<forall>m \<in> set before. nodeClass m \<noteq> RBGroundBody \<longrightarrow> nodeNum m \<noteq> 0) \<longrightarrow>
        (let st = calcAccel_outward lib before mv allQ cc allU dc
                    (calcZ_inward nodes cc dc spatialForces (SBReactionCache_allocate rc),
                     allUdot, allQdotdot)
         in case calcAccel lib n mv allQ cc allU dc st of
              (rc', allUdot', allQdotdot') \<Rightarrow>
                 fromU n allUdot' = getNu (fst st) n
               \<and> getA_GB rc' n = cols_vec (getH cc n) (getNu (fst st) n)
                                  + getCoriolisAcceleration dc n))"
  apply (intro conjI impI)
  subgoal premises ng
    unfolding Spec_calcAccel_fields[OF ng] prod.case Let_def
    by (simp add: fromU_toU_same toU_outside getA_GB_def calcQDotDot_default fromQ_toQ_same
        toQ_outside fromUVec3_toU_0 fromUVec3_toU_3 dof_def calcQDotDot_ball_euler
        calcQDotDot_ball_quat calcQDotDot_free_euler calcQDotDot_free_quat
        vecN_sub_rows_vec_zero SpatialVec_zero length_getNu)
  subgoal premises h
  proof -
    obtain rc1 ud1 qdd1 where st: "calcAccel_outward lib before mv allQ cc allU dc
        (calcZ_inward nodes cc dc spatialForces (SBReactionCache_allocate rc), allUdot, allQdotdot)
        = (rc1, ud1, qdd1)"
      by (rule prod_cases3)
    have ng: "nodeClass n \<noteq> RBGroundBody" and p: "parent n = 0"
      and b: "\<forall>m \<in> set before. nodeClass m \<noteq> RBGroundBody \<longrightarrow> nodeNum m \<noteq> 0"
      using h by blast+
    have "rc_A_GB rc1 0 = 0"
      using calcAccel_outward_A_GB_0[OF b, of lib mv allQ cc allU dc
          "(calcZ_inward nodes cc dc spatialForces (SBReactionCache_allocate rc), allUdot, allQdotdot)"]
      unfolding st
      by (simp add: calcZ_inward_A_GB SBReactionCache_allocate_def SpatialVec_zero)
    then show ?thesis
      unfolding Let_def st Spec_calcAccel_fields[OF ng] prod.case
      by (simp add: p fromU_toU_same getA_GB_def vecN_sub_rows_vec_zero length_getNu)
  qed
  done

theorem calcAccel_formulas_witness:
  "nodeClass ex_slider \<noteq> RBGroundBody
   \<and> nodeClass ex_slider \<noteq> RBNodeRotate3 \<and> nodeClass ex_slider \<noteq> RBNodeTranslateRotate3
   \<and> rc_A_GB ex_rc_moving (parent ex_slider) = ((0, 1, 0), (0, 0, 5))
   \<and> (case calcAccel ex_lib_mixing ex_slider ex_quat_mode ex_q ex_cc (\<lambda>j. 5) ex_dc
              (ex_rc_moving, \<lambda>j. 7, \<lambda>j. 8) of
        (rc', allUdot', allQdotdot') \<Rightarrow>
           fromU ex_slider allUdot' = [- 1]
         \<and> allUdot' 0 = 7 \<and> allUdot' 2 = 7
         \<and> getA_GB rc' ex_slider = ((0, 1, 0), (0, 1, 3))
         \<and> rc_A_GB rc' 1 = ((0, 1, 0), (0, 0, 5))
         \<and> fromQ ex_slider allQdotdot' = [- 1]
         \<and> allQdotdot' 0 = 8 \<and> allQdotdot' 2 = 8)
   \<and> nodeClass ex_ball = RBNodeRotate3 \<and> \<not> getUseEulerAngles ex_quat_mode
   \<and> getUseEulerAngles ex_euler_mode
   \<and> (case calcAccel ex_lib_mixing ex_ball ex_quat_mode ex_q ex_cc (\<lambda>j. 5) ex_dc
              (ex_rc_moving, \<lambda>j. 7, \<lambda>j. 8) of
        (rc', allUdot', allQdotdot') \<Rightarrow>
           fromU ex_ball allUdot' = [3, 3, 3]
         \<and> fromQuat ex_ball allQdotdot' = (7, 11, 11, 11)
         \<and> allQdotdot' 1 = 8 \<and> allQdotdot' 6 = 8)
   \<and> (case calcAccel ex_lib_mixing ex_ball ex_euler_mode ex_q ex_cc (\<lambda>j. 5) ex_dc
              (ex_rc_moving, \<lambda>j. 7, \<lambda>j. 8) of
        (rc', allUdot', allQdotdot') \<Rightarrow>
           fromQVec3 ex_ball allQdotdot' 0 = (22, 19, 23)
         \<and> allQdotdot' 5 = 0
         \<and> allQdotdot' 1 = 8 \<and> allQdotdot' 6 = 8)
   \<and> nodeClass ex_pin \<noteq> RBGroundBody \<and> parent ex_pin = 0
   \<and> list_all (\<lambda>m. nodeClass m = RBGroundBody \<or> nodeNum m \<noteq> 0) [ex_ground]
   \<and> rc_A_GB ex_rc 0 = ((0, 0, 0), (0, 0, 5))
   \<and> (case calcAccel ex_lib ex_pin ex_quat_mode (\<lambda>j. 0) ex_cc (\<lambda>j. 0) ex_dc
              (calcAccel_outward ex_lib [ex_ground] ex_quat_mode (\<lambda>j. 0) ex_cc (\<lambda>j. 0) ex_dc
                 (calcZ_inward ex_nodes ex_cc ex_dc (\<lambda>k. 0)
                    (SBReactionCache_allocate ex_rc), \<lambda>j. 7, \<lambda>j. 8)) of
        (rc', allUdot', allQdotdot') \<Rightarrow>
           fromU ex_pin allUdot' = [2] \<and> getA_GB rc' ex_pin = ((0, 0, 2), (0, 1, 0)))"
proof -
  have h: "nodeClass ex_slider \<noteq> RBGroundBody"
    "nodeClass ex_slider \<noteq> RBNodeRotate3 \<and> nodeClass ex_slider \<noteq> RBNodeTranslateRotate3"
    "rc_A_GB ex_rc_moving (parent ex_slider) = ((0, 1, 0), (0, 0, 5))"
    "nodeClass ex_ball = RBNodeRotate3" "\<not> getUseEulerAngles ex_quat_mode"
    "getUseEulerAngles ex_euler_mode"
    "nodeClass ex_pin \<noteq> RBGroundBody" "parent ex_pin = 0"
    "\<forall>m \<in> set [ex_ground]. nodeClass m \<noteq> RBGroundBody \<longrightarrow> nodeNum m \<noteq> 0"
    "rc_A_GB ex_rc 0 = ((0, 0, 0), (0, 0, 5))"
    "list_all (\<lambda>m. nodeClass m = RBGroundBody \<or> nodeNum m \<noteq> 0) [ex_ground]"
    by (simp_all add: ex_defs ex_rc_moving_def getUseEulerAngles_def)
  have slider: "case calcAccel ex_lib_mixing ex_slider ex_quat_mode ex_q ex_cc (\<lambda>j. 5) ex_dc
              (ex_rc_moving, \<lambda>j. 7, \<lambda>j. 8) of
        (rc', allUdot', allQdotdot') \<Rightarrow>
           fromU ex_slider allUdot' = [- 1]
         \<and> allUdot' 0 = 7 \<and> allUdot' 2 = 7
         \<and> getA_GB rc' ex_slider = ((0, 1, 0), (0, 1, 3))
         \<and> rc_A_GB rc' 1 = ((0, 1, 0), (0, 0, 5))
         \<and> fromQ ex_slider allQdotdot' = [- 1]
         \<and> allQdotdot' 0 = 8 \<and> allQdotdot' 2 = 8"
    using calcAccel_formulas[where n = ex_slider and lib = ex_lib_mixing and mv = ex_quat_mode
      and allQ = ex_q and cc = ex_cc and allU = "\<lambda>j. 5" and dc = ex_dc
      and rc = ex_rc_moving and allUdot = "\<lambda>j. 7" and allQdotdot = "\<lambda>j. 8", THEN conjunct1]
    by (simp add: ex_defs ex_rc_moving_def Let_def getNu_def getH_def getG_def
      getPhi_def getCoriolisAcceleration_def fromU_def dof_def vecN_sub_def rows_vec_def
      cols_vec_def zero_prod_def split: prod.splits)
  have ballq: "case calcAccel ex_lib_mixing ex_ball ex_quat_mode ex_q ex_cc (\<lambda>j. 5) ex_dc
              (ex_rc_moving, \<lambda>j. 7, \<lambda>j. 8) of
        (rc', allUdot', allQdotdot') \<Rightarrow>
           fromU ex_ball allUdot' = [3, 3, 3]
         \<and> fromQuat ex_ball allQdotdot' = (7, 11, 11, 11)
         \<and> allQdotdot' 1 = 8 \<and> allQdotdot' 6 = 8"
    using calcAccel_formulas[where n = ex_ball and lib = ex_lib_mixing and mv = ex_quat_mode
      and allQ = ex_q and cc = ex_cc and allU = "\<lambda>j. 5" and dc = ex_dc
      and rc = ex_rc_moving and allUdot = "\<lambda>j. 7" and allQdotdot = "\<lambda>j. 8", THEN conjunct1]
    by (simp add: ex_defs ex_rc_moving_def ex_lib_mixing_def Let_def getNu_def getH_def getG_def
      getPhi_def getCoriolisAcceleration_def fromU_def fromUVec3_def fromQuat_def dof_def
      vecN_sub_def rows_vec_def cols_vec_def zero_prod_def getUseEulerAngles_def upt_rec
      split: prod.splits)
  have balle: "case calcAccel ex_lib_mixing ex_ball ex_euler_mode ex_q ex_cc (\<lambda>j. 5) ex_dc
              (ex_rc_moving, \<lambda>j. 7, \<lambda>j. 8) of
        (rc', allUdot', allQdotdot') \<Rightarrow>
           fromQVec3 ex_ball allQdotdot' 0 = (22, 19, 23)
         \<and> allQdotdot' 5 = 0
         \<and> allQdotdot' 1 = 8 \<and> allQdotdot' 6 = 8"
    using calcAccel_formulas[where n = ex_ball and lib = ex_lib_mixing and mv = ex_euler_mode
      and allQ = ex_q and cc = ex_cc and allU = "\<lambda>j. 5" and dc = ex_dc
      and rc = ex_rc_moving and allUdot = "\<lambda>j. 7" and allQdotdot = "\<lambda>j. 8", THEN conjunct1]
    by (simp add: ex_defs ex_rc_moving_def ex_lib_mixing_def Let_def getNu_def getH_def getG_def
      getPhi_def getCoriolisAcceleration_def fromU_def fromUVec3_def fromQVec3_def dof_def
      vecN_sub_def rows_vec_def cols_vec_def zero_prod_def getUseEulerAngles_def upt_rec
      getX_JbJ_def Transform_R_def Mat33_diag_def
      split: prod.splits)
  have nu: "getNu (calcZ_inward ex_nodes ex_cc ex_dc (\<lambda>k. 0) (SBReactionCache_allocate ex_rc)) ex_pin
              = [2]"
    by (simp add: calcZ_inward_def calcZ_def RBGroundBody_calcZ_def RigidBodyNodeSpec_calcZ_def
      calcZ_child_step_def SBReactionCache_allocate_def Let_def ex_defs fromU_def toU_def dof_def
      getNu_def getG_def getH_def getDI_def fromUSq_def getCentrifugalForces_def
      getAppliedJointForce_def getZ_def getEpsilon_def vecN_sub_def rows_vec_def cols_vec_def
      matN_vec_def zero_prod_def)
  have st: "fst (calcAccel_outward ex_lib [ex_ground] ex_quat_mode (\<lambda>j. 0) ex_cc (\<lambda>j. 0) ex_dc
                 (calcZ_inward ex_nodes ex_cc ex_dc (\<lambda>k. 0)
                    (SBReactionCache_allocate ex_rc), \<lambda>j. 7, \<lambda>j. 8))
            = calcZ_inward ex_nodes ex_cc ex_dc (\<lambda>k. 0) (SBReactionCache_allocate ex_rc)"
    by (simp add: calcAccel_outward_def calcAccel_def RBGroundBody_calcAccel_def ex_ground_def)
  have sweep: "case calcAccel ex_lib ex_pin ex_quat_mode (\<lambda>j. 0) ex_cc (\<lambda>j. 0) ex_dc
              (calcAccel_outward ex_lib [ex_ground] ex_quat_mode (\<lambda>j. 0) ex_cc (\<lambda>j. 0) ex_dc
                 (calcZ_inward ex_nodes ex_cc ex_dc (\<lambda>k. 0)
                    (SBReactionCache_allocate ex_rc), \<lambda>j. 7, \<lambda>j. 8)) of
        (rc', allUdot', allQdotdot') \<Rightarrow>
           fromU ex_pin allUdot' = [2] \<and> getA_GB rc' ex_pin = ((0, 0, 2), (0, 1, 0))"
    using h(7-9) calcAccel_formulas[where n = ex_pin and lib = ex_lib and mv = ex_quat_mode
      and allQ = "\<lambda>j. 0" and cc = ex_cc and allU = "\<lambda>j. 0" and dc = ex_dc
      and rc = ex_rc and allUdot = "\<lambda>j. 7" and allQdotdot = "\<lambda>j. 8"
      and before = "[ex_ground]" and nodes = ex_nodes and spatialForces = "\<lambda>k. 0",
      THEN conjunct2, unfolded Let_def st nu]
    by (simp add: getH_def getCoriolisAcceleration_def ex_cc_def ex_dc_def ex_pin_def ex_base_def
      dof_def cols_vec_def zero_prod_def split: prod.splits)
  show ?thesis
    using h(1-8) h(10,11) slider ballq balle sweep by simp
qed

text \<open>
  Claim C4. For a well-formed node list, any configuration and dynamics caches, no applied
  spatial forces in either path and the same applied joint forces, the \<open>udot\<close> of every node
  computed by \<^verbatim>\<open>calcZ\<close> and \<^verbatim>\<open>calcAccel\<close> on the reaction cache equals the \<open>udot\<close> computed
  by \<^verbatim>\<open>calcUDotPass1Inward\<close> and \<^verbatim>\<open>calcUDotPass2Outward\<close> on arrays, whatever the arrays,
  the reaction cache and the output vectors held before.
\<close>

theorem udot_cache_eq_udot_arrays:
  "tree_ok [] nodes \<and> (\<forall>n \<in> set nodes. getAppliedJointForce dc n = fromU n jointForces) \<longrightarrow>
     (\<forall>n \<in> set nodes.
        fromU n (udot_by_cache lib nodes mv q cc u dc (\<lambda>k. 0) (rc, allUdot, allQdotdot))
      = fromU n (udot_by_arrays nodes cc dc jointForces (\<lambda>k. 0) tmp (allA_GB, allUDot)))"
proof (intro impI)
  assume h: "tree_ok [] nodes \<and> (\<forall>n \<in> set nodes. getAppliedJointForce dc n = fromU n jointForces)"
  show "\<forall>n \<in> set nodes.
        fromU n (udot_by_cache lib nodes mv q cc u dc (\<lambda>k. 0) (rc, allUdot, allQdotdot))
      = fromU n (udot_by_arrays nodes cc dc jointForces (\<lambda>k. 0) tmp (allA_GB, allUDot))"
    by (rule udot_paths_agree) (use h in simp_all)
qed

theorem udot_cache_eq_udot_arrays_witness:
  "tree_ok [] ex_nodes
   \<and> list_all (\<lambda>n. getAppliedJointForce ex_dc n = fromU n (\<lambda>j. 4)) ex_nodes
   \<and> map (\<lambda>n. fromU n (udot_by_cache ex_lib ex_nodes ex_quat_mode (\<lambda>j. 0) ex_cc (\<lambda>j. 0) ex_dc
                          (\<lambda>k. 0) (ex_rc, \<lambda>j. 0, \<lambda>j. 0))) ex_nodes
     = map (\<lambda>n. fromU n (udot_by_arrays ex_nodes ex_cc ex_dc (\<lambda>j. 4) (\<lambda>k. 0)
                          (\<lambda>k. ((1, 1, 1), (1, 1, 1)), \<lambda>k. ((2, 2, 2), (2, 2, 2)), \<lambda>j. 9)
                          (\<lambda>k. ((3, 3, 3), (3, 3, 3)), \<lambda>j. 8))) ex_nodes
   \<and> map (\<lambda>n. fromU n (udot_by_cache ex_lib ex_nodes ex_quat_mode (\<lambda>j. 0) ex_cc (\<lambda>j. 0) ex_dc
                          (\<lambda>k. 0) (ex_rc, \<lambda>j. 0, \<lambda>j. 0))) ex_nodes
     = [[], [2], [2]]"
proof -
  have ok: "tree_ok [] ex_nodes"
    by (simp add: ex_defs uslots_disjoint_def dof_def)
  have jf: "\<forall>n \<in> set ex_nodes. getAppliedJointForce ex_dc n = fromU n (\<lambda>j. 4)"
    by (simp add: ex_defs getAppliedJointForce_def)
  have v: "map (\<lambda>n. fromU n (udot_by_cache ex_lib ex_nodes ex_quat_mode (\<lambda>j. 0) ex_cc (\<lambda>j. 0) ex_dc
                          (\<lambda>k. 0) (ex_rc, \<lambda>j. 0, \<lambda>j. 0))) ex_nodes = [[], [2], [2]]"
    by (simp add: udot_by_cache_def calcAccel_outward_def calcZ_inward_def calcZ_def calcAccel_def
      RBGroundBody_calcZ_def RBGroundBody_calcAccel_def RigidBodyNodeSpec_calcZ_def
      RigidBodyNodeSpec_calcAccel_def calcZ_child_step_def SBReactionCache_allocate_def
      calcQDotDot_def Let_def ex_defs fromU_def toU_def dof_def getNu_def getG_def getH_def
      getDI_def fromUSq_def getPhi_def getCoriolisAcceleration_def getCentrifugalForces_def
      getAppliedJointForce_def getZ_def getEpsilon_def vecN_sub_def rows_vec_def cols_vec_def
      matN_vec_def zero_prod_def)
  have e: "map (\<lambda>n. fromU n (udot_by_cache ex_lib ex_nodes ex_quat_mode (\<lambda>j. 0) ex_cc (\<lambda>j. 0) ex_dc
                          (\<lambda>k. 0) (ex_rc, \<lambda>j. 0, \<lambda>j. 0))) ex_nodes
     = map (\<lambda>n. fromU n (udot_by_arrays ex_nodes ex_cc ex_dc (\<lambda>j. 4) (\<lambda>k. 0)
                          (\<lambda>k. ((1, 1, 1), (1, 1, 1)), \<lambda>k. ((2, 2, 2), (2, 2, 2)), \<lambda>j. 9)
                          (\<lambda>k. ((3, 3, 3), (3, 3, 3)), \<lambda>j. 8))) ex_nodes"
    using ok jf udot_cache_eq_udot_arrays[of ex_nodes ex_dc "\<lambda>j. 4" ex_lib ex_quat_mode
        "\<lambda>j. 0" ex_cc "\<lambda>j. 0" ex_rc "\<lambda>j. 0" "\<lambda>j. 0"
        "(\<lambda>k. ((1, 1, 1), (1, 1, 1)), \<lambda>k. ((2, 2, 2), (2, 2, 2)), \<lambda>j. 9)"
        "\<lambda>k. ((3, 3, 3), (3, 3, 3))" "\<lambda>j. 8"]
    by simp
  show ?thesis using ok jf e v by (simp add: list_all_iff)
qed

text \<open>
  Claim C5. For a node with \<^verbatim>\<open>nodeNum\<close> other than 0, with \<open>omega\<close> and \<open>vel\<close> the node's and
  \<open>pOmega\<close> and \<open>pVel\<close> the parent's angular and linear velocity,
  \<^verbatim>\<open>calcJointIndependentDynamicsVel\<close> sets the gyroscopic force to
  \<open>(omega % (I * omega), m * (omega % (omega % CB_G)))\<close>, the coriolis acceleration to
  \<open>(0, pOmega % (vel - pVel)) + crossMat(omega) * V_PB_G\<close>, that is
  \<open>(omega % V_PB_G[0], pOmega % (vel - pVel) + omega % V_PB_G[1])\<close>, and the centrifugal force
  to \<open>P * coriolisAcceleration + gyroscopicForce\<close>.
\<close>

theorem DynamicsVel_formulas:
  "nodeNum n \<noteq> 0 \<longrightarrow>
     (let dc' = calcJointIndependentDynamicsVel n cc mc dc;
          omega = fst (getV_GB mc n);
          vel = snd (getV_GB mc n);
          pOmega = fst (mc_V_GB mc (parent n));
          pVel = snd (mc_V_GB mc (parent n))
      in getGyroscopicForce dc' n =
           (cross omega (mat33_vec (getInertia_OB_G cc n) omega),
            smul3 (getMass n) (cross omega (cross omega (getCB_G cc n))))
         \<and> getCoriolisAcceleration dc' n =
             (0, cross pOmega (vel - pVel)) + mat33_svec (crossMat omega) (getV_PB_G mc n)
         \<and> getCoriolisAcceleration dc' n =
             (cross omega (fst (getV_PB_G mc n)),
              cross pOmega (vel - pVel) + cross omega (snd (getV_PB_G mc n)))
         \<and> getCentrifugalForces dc' n =
             smat_vec (getP dc n) (getCoriolisAcceleration dc' n) + getGyroscopicForce dc' n)"
proof -
  obtain a b where V: "getV_PB_G mc n = (a, b)" by (cases "getV_PB_G mc n")
  show ?thesis
    by (simp add: calcJointIndependentDynamicsVel_def Let_def getGyroscopicForce_def
        getCoriolisAcceleration_def getCentrifugalForces_def getP_def V crossMat_vec)
qed

theorem DynamicsVel_formulas_witness:
  "nodeNum ex_pin \<noteq> 0
   \<and> getGyroscopicForce (calcJointIndependentDynamicsVel ex_pin ex_cc ex_mc ex_dc) ex_pin
       = ((0, 0, 0), (- 2, 0, 0))
   \<and> getCoriolisAcceleration (calcJointIndependentDynamicsVel ex_pin ex_cc ex_mc ex_dc) ex_pin
       = ((0, 1, 0), (- 1, 0, - 1))
   \<and> getCentrifugalForces (calcJointIndependentDynamicsVel ex_pin ex_cc ex_mc ex_dc) ex_pin
       = ((0, 1, 0), (- 3, 0, - 1))"
  using DynamicsVel_formulas[of ex_pin ex_cc ex_mc ex_dc]
  by (simp add: ex_defs Let_def getV_GB_def getV_PB_G_def getInertia_OB_G_def getCB_G_def
      getP_def SpatialMat_one_def Mat33_diag_def zero_prod_def)

text \<open>
  Claim C6. For node 0, \<^verbatim>\<open>calcJointIndependentDynamicsVel\<close> sets the gyroscopic force, the
  coriolis acceleration and the centrifugal force to zero, whatever the caches hold. The
  ground body has no degrees of freedom: its \<open>H\<close> has no rows and \<open>~H * u\<close> is the zero
  spatial vector. Its \<^verbatim>\<open>calcUDotPass2Outward\<close> writes zero to \<^verbatim>\<open>allA_GB[0]\<close>, and its
  \<^verbatim>\<open>calcAccel\<close> changes nothing. After \<^verbatim>\<open>calcZ\<close> of all nodes inward and \<^verbatim>\<open>calcAccel\<close> of
  all nodes outward on an allocated reaction cache, for any node list in which only ground
  has number 0 and any coordinates, speeds and forces, the spatial acceleration of node 0
  in the reaction cache is zero.
\<close>

theorem ground_quantities_zero:
  "(nodeNum n = 0 \<longrightarrow>
      (let dc' = calcJointIndependentDynamicsVel n cc mc dc
       in getGyroscopicForce dc' n = 0 \<and> getCoriolisAcceleration dc' n = 0
          \<and> getCentrifugalForces dc' n = 0))
   \<and> (nodeClass n = RBGroundBody \<longrightarrow>
         dof n = 0 \<and> getH cc n = [] \<and> cols_vec (getH cc n) (fromU n u) = 0
       \<and> fst (calcUDotPass2Outward n cc dc allEpsilon (allA_GB, allUDot)) 0 = 0
       \<and> calcAccel lib n mv q cc u dc st = st)
   \<and> ((\<forall>m \<in> set nodes. nodeClass m \<noteq> RBGroundBody \<longrightarrow> nodeNum m \<noteq> 0) \<longrightarrow>
         rc_A_GB (fst (calcAccel_outward lib nodes mv q cc u dc
                   (calcZ_inward nodes cc dc spatialForces (SBReactionCache_allocate rc),
                    allUdot, allQdotdot))) 0 = 0)"
  by (simp add: calcJointIndependentDynamicsVel_def getGyroscopicForce_def
      getCoriolisAcceleration_def getCentrifugalForces_def SpatialVec_zero getH_def dof_def
      calcUDotPass2Outward_def RBGroundBody_calcUDotPass2Outward_def calcAccel_def
      RBGroundBody_calcAccel_def calcAccel_outward_A_GB_0 calcZ_inward_A_GB
      SBReactionCache_allocate_def)

theorem ground_quantities_zero_witness:
  "nodeNum ex_ground = 0 \<and> nodeClass ex_ground = RBGroundBody
   \<and> list_all (\<lambda>m. nodeClass m = RBGroundBody \<or> nodeNum m \<noteq> 0) ex_nodes
   \<and> getGyroscopicForce (calcJointIndependentDynamicsVel ex_ground ex_cc ex_mc ex_dc) ex_ground = 0
   \<and> getCoriolisAcceleration (calcJointIndependentDynamicsVel ex_ground ex_cc ex_mc ex_dc) ex_ground = 0
   \<and> getCentrifugalForces (calcJointIndependentDynamicsVel ex_ground ex_cc ex_mc ex_dc) ex_ground = 0
   \<and> getH ex_cc ex_ground = []
   \<and> fst (calcUDotPass2Outward ex_ground ex_cc ex_dc (\<lambda>j. 6) (\<lambda>k. ((3, 3, 3), (3, 3, 3)), \<lambda>j. 8)) 0 = 0
   \<and> rc_A_GB ex_rc 0 = ((0, 0, 0), (0, 0, 5))
   \<and> rc_A_GB (fst (calcAccel_outward ex_lib ex_nodes ex_quat_mode (\<lambda>j. 0) ex_cc (\<lambda>j. 0) ex_dc
                 (calcZ_inward ex_nodes ex_cc ex_dc (\<lambda>k. ((1, 2, 3), (4, 5, 6)))
                    (SBReactionCache_allocate ex_rc), \<lambda>j. 0, \<lambda>j. 0))) 0 = 0"
proof -
  have h: "nodeNum ex_ground = 0" "nodeClass ex_ground = RBGroundBody"
    "\<forall>m \<in> set ex_nodes. nodeClass m \<noteq> RBGroundBody \<longrightarrow> nodeNum m \<noteq> 0"
    "rc_A_GB ex_rc 0 = ((0, 0, 0), (0, 0, 5))"
    by (simp_all add: ex_defs)
  show ?thesis
    using h ground_quantities_zero[of ex_ground ex_cc ex_mc ex_dc "\<lambda>j. 0" "\<lambda>j. 6"
        "\<lambda>k. ((3, 3, 3), (3, 3, 3))" "\<lambda>j. 8" ex_lib ex_quat_mode "\<lambda>j. 0"
        "(ex_rc, \<lambda>j. 0, \<lambda>j. 0)" ex_nodes "\<lambda>k. ((1, 2, 3), (4, 5, 6))" ex_rc "\<lambda>j. 0" "\<lambda>j. 0"]
    by (simp add: Let_def list_all_iff) blast
qed

text \<open>
  Claim C7 as stated: "applying it twice in a row yields the same q as applying it once
  (idempotent, the second call producing no numerical change in the coordinates)". For the
  ball body of the example in quaternion mode and the quaternion \<open>(1, 2, 3, 4)\<close>, the norm
  is the rounded square root of 30 and the first call gives four rounded quotients. Their
  norm is computed as \<open>(2\<^sup>5\<^sup>3 - 1) * 2\<^sup>-\<^sup>5\<^sup>3\<close>, the \<^verbatim>\<open>double\<close> below 1, and the second call
  changes each of the four coordinates by one unit in the last place.
\<close>

theorem enforceQuaternionConstraints_twice_counterexample:
  "fromQuat ex_ball ex_quat_q
     = (double_of_int 1, double_of_int 2, double_of_int 3, double_of_int 4)
   \<and> fnorm4 (fromQuat ex_ball ex_quat_q) = Finite False 6166807764706703 (- 50)
   \<and> fromQuat ex_ball (snd (enforceQuaternionConstraints ex_ball ex_quat_mode ex_quat_q))
     = (Finite False 6577928282353816 (- 55), Finite False 6577928282353816 (- 54),
        Finite False 4933446211765362 (- 53), Finite False 6577928282353816 (- 53))
   \<and> fnorm4 (fromQuat ex_ball (snd (enforceQuaternionConstraints ex_ball ex_quat_mode ex_quat_q)))
     = Finite False 9007199254740991 (- 53)
   \<and> double_of_int 1 = Finite False 4503599627370496 (- 52)
   \<and> fromQuat ex_ball (snd (enforceQuaternionConstraints ex_ball ex_quat_mode
        (snd (enforceQuaternionConstraints ex_ball ex_quat_mode ex_quat_q))))
     = (Finite False 6577928282353817 (- 55), Finite False 6577928282353817 (- 54),
        Finite False 4933446211765363 (- 53), Finite False 6577928282353817 (- 53))
   \<and> snd (enforceQuaternionConstraints ex_ball ex_quat_mode
        (snd (enforceQuaternionConstraints ex_ball ex_quat_mode ex_quat_q)))
     \<noteq> snd (enforceQuaternionConstraints ex_ball ex_quat_mode ex_quat_q)"
proof -
  have q: "fromQuat ex_ball ex_quat_q
             = (double_of_int 1, double_of_int 2, double_of_int 3, double_of_int 4)"
    by (simp add: fromQuat_def ex_quat_q_def ex_ball_def ex_base_def)
  have m: "\<not> getUseEulerAngles ex_quat_mode" "nodeClass ex_ball = RBNodeRotate3"
    by (simp_all add: ex_defs getUseEulerAngles_def)
  have e: "snd (enforceQuaternionConstraints ex_ball ex_quat_mode q)
             = toQuat ex_ball q (fdiv4 (fromQuat ex_ball q) (fnorm4 (fromQuat ex_ball q)))" for q
    using m by (simp add: enforceQuaternionConstraints_def)
  have first: "fromQuat ex_ball (snd (enforceQuaternionConstraints ex_ball ex_quat_mode ex_quat_q))
     = (Finite False 6577928282353816 (- 55), Finite False 6577928282353816 (- 54),
        Finite False 4933446211765362 (- 53), Finite False 6577928282353816 (- 53))"
    unfolding e fromQuat_toQuat q ex_normalize_once ..
  have second: "fromQuat ex_ball (snd (enforceQuaternionConstraints ex_ball ex_quat_mode
        (snd (enforceQuaternionConstraints ex_ball ex_quat_mode ex_quat_q))))
     = (Finite False 6577928282353817 (- 55), Finite False 6577928282353817 (- 54),
        Finite False 4933446211765363 (- 53), Finite False 6577928282353817 (- 53))"
    unfolding e fromQuat_toQuat q ex_normalize_once ex_normalize_twice ..
  have "fromQuat ex_ball (snd (enforceQuaternionConstraints ex_ball ex_quat_mode
        (snd (enforceQuaternionConstraints ex_ball ex_quat_mode ex_quat_q))))
      \<noteq> fromQuat ex_ball (snd (enforceQuaternionConstraints ex_ball ex_quat_mode ex_quat_q))"
    unfolding first second by simp
  then have "snd (enforceQuaternionConstraints ex_ball ex_quat_mode
        (snd (enforceQuaternionConstraints ex_ball ex_quat_mode ex_quat_q)))
     \<noteq> snd (enforceQuaternionConstraints ex_ball ex_quat_mode ex_quat_q)"
    by metis
  moreover have "fnorm4 (fromQuat ex_ball ex_quat_q) = Finite False 6166807764706703 (- 50)"
    unfolding q by (rule ex_norm_once)
  moreover have "fnorm4 (fromQuat ex_ball
        (snd (enforceQuaternionConstraints ex_ball ex_quat_mode ex_quat_q)))
      = Finite False 9007199254740991 (- 53)"
    unfolding first by (rule ex_norm_twice)
  ultimately show ?thesis using q first second double_of_int_1 by blast
qed

text \<open>
  Claim C7, amended. In Euler-angle mode, and for every class other than \<^verbatim>\<open>RBNodeRotate3\<close>
  and \<^verbatim>\<open>RBNodeTranslateRotate3\<close>, \<^verbatim>\<open>enforceQuaternionConstraints\<close> returns false and leaves \<open>q\<close>
  as it is. In quaternion mode the two classes return true; each of the node's four
  quaternion coordinates becomes its rounded quotient by the norm, the rounded square root
  of the sum of the rounded squares, added one by one; and every coordinate outside these
  four keeps its value. This holds for all \<^verbatim>\<open>double\<close>s, infinities and NaN included; four
  zeros of either sign become four NaNs. Nothing is said of a second call: it need not
  leave the coordinates as they are.
\<close>

theorem enforceQuaternionConstraints_cases:
  "(getUseEulerAngles mv \<or> (nodeClass n \<noteq> RBNodeRotate3 \<and> nodeClass n \<noteq> RBNodeTranslateRotate3)
      \<longrightarrow> enforceQuaternionConstraints n mv q = (False, q))
   \<and> (\<not> getUseEulerAngles mv \<and> (nodeClass n = RBNodeRotate3 \<or> nodeClass n = RBNodeTranslateRotate3)
      \<longrightarrow> (let a = q (qIndex n); b = q (qIndex n + 1); c = q (qIndex n + 2); d = q (qIndex n + 3);
               norm = fsqrt (fadd (fadd (fadd (fmul a a) (fmul b b)) (fmul c c)) (fmul d d));
               q' = snd (enforceQuaternionConstraints n mv q)
           in fst (enforceQuaternionConstraints n mv q) = True
              \<and> q' (qIndex n) = fdiv a norm
              \<and> q' (qIndex n + 1) = fdiv b norm
              \<and> q' (qIndex n + 2) = fdiv c norm
              \<and> q' (qIndex n + 3) = fdiv d norm
              \<and> (\<forall>j. j < qIndex n \<or> qIndex n + 3 < j \<longrightarrow> q' j = q j)
              \<and> ((\<exists>s t u v. a = Finite s 0 (- 1074) \<and> b = Finite t 0 (- 1074)
                            \<and> c = Finite u 0 (- 1074) \<and> d = Finite v 0 (- 1074)) \<longrightarrow>
                    fromQuat n q' = (NaN, NaN, NaN, NaN))))"
  by (auto simp: enforceQuaternionConstraints_def fromQuat_def Let_def fmul_def fadd_def fsqrt_def
      fdiv_def round_double_def)

theorem enforceQuaternionConstraints_witness:
  "\<not> getUseEulerAngles ex_quat_mode \<and> nodeClass ex_ball = RBNodeRotate3
   \<and> fst (enforceQuaternionConstraints ex_ball ex_quat_mode ex_quat_q) = True
   \<and> fromQuat ex_ball ex_quat_q
       = (double_of_int 1, double_of_int 2, double_of_int 3, double_of_int 4)
   \<and> fromQuat ex_ball (snd (enforceQuaternionConstraints ex_ball ex_quat_mode ex_quat_q))
       = (Finite False 6577928282353816 (- 55), Finite False 6577928282353816 (- 54),
          Finite False 4933446211765362 (- 53), Finite False 6577928282353816 (- 53))
   \<and> snd (enforceQuaternionConstraints ex_ball ex_quat_mode ex_quat_q) 1 = double_of_int 7
   \<and> snd (enforceQuaternionConstraints ex_ball ex_quat_mode ex_quat_q) 6 = double_of_int 7
   \<and> fromQuat ex_ball ex_zero_q
       = (Finite False 0 (- 1074), Finite False 0 (- 1074), Finite False 0 (- 1074),
          Finite False 0 (- 1074))
   \<and> fromQuat ex_ball (snd (enforceQuaternionConstraints ex_ball ex_quat_mode ex_zero_q))
       = (NaN, NaN, NaN, NaN)
   \<and> getUseEulerAngles ex_euler_mode
   \<and> enforceQuaternionConstraints ex_ball ex_euler_mode ex_quat_q = (False, ex_quat_q)
   \<and> nodeClass ex_pin \<noteq> RBNodeRotate3 \<and> nodeClass ex_pin \<noteq> RBNodeTranslateRotate3
   \<and> enforceQuaternionConstraints ex_pin ex_quat_mode ex_quat_q = (False, ex_quat_q)"
proof -
  have h: "\<not> getUseEulerAngles ex_quat_mode" "nodeClass ex_ball = RBNodeRotate3"
    "getUseEulerAngles ex_euler_mode"
    "nodeClass ex_pin \<noteq> RBNodeRotate3" "nodeClass ex_pin \<noteq> RBNodeTranslateRotate3"
    "qIndex ex_ball = 2"
    by (simp_all add: ex_defs getUseEulerAngles_def)
  have q: "ex_quat_q 2 = double_of_int 1" "ex_quat_q 3 = double_of_int 2"
    "ex_quat_q 4 = double_of_int 3" "ex_quat_q 5 = double_of_int 4"
    "ex_quat_q 1 = double_of_int 7" "ex_quat_q 6 = double_of_int 7"
    by (simp_all add: ex_quat_q_def)
  have z: "ex_zero_q j = Finite False 0 (- 1074)" for j
    by (simp add: ex_zero_q_def double_of_int_def round_double_def)
  note v = ex_normalize_once[unfolded fnorm4.simps fdiv4.simps prod.inject]
  note t1 = enforceQuaternionConstraints_cases[of ex_quat_mode ex_ball ex_quat_q,
      unfolded Let_def h(6), THEN conjunct2, rule_format]
  note t2 = enforceQuaternionConstraints_cases[of ex_quat_mode ex_ball ex_zero_q,
      unfolded Let_def h(6), THEN conjunct2, rule_format]
  note t3 = enforceQuaternionConstraints_cases[of ex_euler_mode ex_ball ex_quat_q,
      THEN conjunct1, rule_format]
  note t4 = enforceQuaternionConstraints_cases[of ex_quat_mode ex_pin ex_quat_q,
      THEN conjunct1, rule_format]
  have a: "fst (enforceQuaternionConstraints ex_ball ex_quat_mode ex_quat_q) = True"
    "fromQuat ex_ball (snd (enforceQuaternionConstraints ex_ball ex_quat_mode ex_quat_q))
       = (Finite False 6577928282353816 (- 55), Finite False 6577928282353816 (- 54),
          Finite False 4933446211765362 (- 53), Finite False 6577928282353816 (- 53))"
    "snd (enforceQuaternionConstraints ex_ball ex_quat_mode ex_quat_q) 1 = double_of_int 7"
    "snd (enforceQuaternionConstraints ex_ball ex_quat_mode ex_quat_q) 6 = double_of_int 7"
    using t1 h(1,2) v by (simp_all add: q fromQuat_def h(6))
  have b: "fromQuat ex_ball (snd (enforceQuaternionConstraints ex_ball ex_quat_mode ex_zero_q))
       = (NaN, NaN, NaN, NaN)"
    using t2 h(1,2) by (auto simp: z)
  have c: "enforceQuaternionConstraints ex_ball ex_euler_mode ex_quat_q = (False, ex_quat_q)"
    using t3 h(3) by simp
  have d: "enforceQuaternionConstraints ex_pin ex_quat_mode ex_quat_q = (False, ex_quat_q)"
    using t4 h(4,5) by simp
  show ?thesis
    using h(1-5) a b c d by (simp add: fromQuat_def h(6) q z)
qed

text \<open>
  Claim C8 as stated: "the off-diagonal block is exactly the negative transpose of the
  corresponding block". For the pin body of the example, with mass 2 and centre of mass
  \<open>(1, 0, 0)\<close>, the lower-left block of \<open>Mk\<close> after \<^verbatim>\<open>realizeConfiguration\<close> is not the
  negative transpose of the upper-right block.
\<close>

theorem Mk_negative_transpose_counterexample:
  "lowerLeft (getMk (realizeConfiguration (\<lambda>cc. cc) ex_pin ex_cc) ex_pin)
     \<noteq> - transpose33 (upperRight (getMk (realizeConfiguration (\<lambda>cc. cc) ex_pin ex_cc) ex_pin))"
  by (simp add: realizeConfiguration_def Mk_after_KinematicsPos upperRight_def lowerLeft_def)
     (simp add: calcJointIndependentKinematicsPos_def Let_def getCB_G_def getX_GB_def
       Transform_R_def ex_defs Mat33_diag_def)

text \<open>
  Claim C8, amended. After \<^verbatim>\<open>calcJointIndependentKinematicsPos\<close>, and so after
  \<^verbatim>\<open>realizeConfiguration\<close> of a node other than ground, the upper-right block of \<open>Mk\<close> is
  \<open>mass * crossMat(CB_G)\<close> and the lower-left block is its negation. Each of the two blocks
  is skew-symmetric (its transpose is its negation), so the lower-left block is the
  transpose of the upper-right block, and not the negative transpose.
\<close>

theorem Mk_offdiag_blocks:
  "(let cc' = calcJointIndependentKinematicsPos n cc;
        Mk = getMk cc' n
    in getCB_G cc' n = mat33_vec (Transform_R (getX_GB cc n)) (getCOM_B n)
       \<and> upperRight Mk = smul33 (getMass n) (crossMat (getCB_G cc' n))
       \<and> lowerLeft Mk = - upperRight Mk
       \<and> transpose33 (upperRight Mk) = - upperRight Mk
       \<and> transpose33 (lowerLeft Mk) = - lowerLeft Mk
       \<and> lowerLeft Mk = transpose33 (upperRight Mk))
   \<and> (nodeClass n \<noteq> RBGroundBody \<longrightarrow>
       (let cc' = realizeConfiguration jointKinematics n cc;
            Mk = getMk cc' n
        in upperRight Mk = smul33 (getMass n) (crossMat (getCB_G cc' n))
           \<and> lowerLeft Mk = - upperRight Mk
           \<and> transpose33 (upperRight Mk) = - upperRight Mk
           \<and> lowerLeft Mk = transpose33 (upperRight Mk)))"
  by (simp add: Let_def realizeConfiguration_def Mk_after_KinematicsPos upperRight_def
      lowerLeft_def transpose33_smul33_crossMat transpose33_uminus)
     (simp add: calcJointIndependentKinematicsPos_def Let_def getCB_G_def getX_GB_def)

theorem Mk_offdiag_blocks_witness:
  "nodeClass ex_pin \<noteq> RBGroundBody
   \<and> upperRight (getMk (realizeConfiguration (\<lambda>cc. cc) ex_pin ex_cc) ex_pin)
       = ((0, 0, 0), (0, 0, - 2), (0, 2, 0))
   \<and> lowerLeft (getMk (realizeConfiguration (\<lambda>cc. cc) ex_pin ex_cc) ex_pin)
       = ((0, 0, 0), (0, 0, 2), (0, - 2, 0))
   \<and> lowerLeft (getMk (realizeConfiguration (\<lambda>cc. cc) ex_pin ex_cc) ex_pin)
       = transpose33 (upperRight (getMk (realizeConfiguration (\<lambda>cc. cc) ex_pin ex_cc) ex_pin))"
proof -
  have h: "nodeClass ex_pin \<noteq> RBGroundBody" by (simp add: ex_defs)
  have c: "getCB_G (realizeConfiguration (\<lambda>cc. cc) ex_pin ex_cc) ex_pin = (1, 0, 0)"
    by (simp add: realizeConfiguration_def calcJointIndependentKinematicsPos_def Let_def
        getCB_G_def getX_GB_def Transform_R_def ex_defs Mat33_diag_def)
  have m: "getMass ex_pin = 2" by (simp add: ex_defs)
  show ?thesis
    using h Mk_offdiag_blocks[of ex_pin ex_cc "\<lambda>cc. cc"]
    by (simp add: Let_def c m)
qed

text \<open>
  Claim C9 as stated: the maximum coordinate count of a Ball joint is "3 in Euler mode", a
  node constructed by the factory "captures the three running slot counters", and the
  counters advance "by exactly dof, dof^2, and maxNQ". \<^verbatim>\<open>getMaxNQ\<close> of \<^verbatim>\<open>RBNodeRotate3\<close>
  takes no mode and is not 3, and creating a ball node from the counters \<open>(0, 0, 0)\<close> does
  not leave the coordinate counter at 3. Creating a free node with the second counter at
  2147483640 does not leave that counter at \<open>2147483640 + 36\<close>. The ground body created at
  the counters \<open>(5, 7, 11)\<close> does not have 5 as its \<open>u\<close> index.
\<close>

theorem maxNQ_counterexample:
  "getUseEulerAngles ex_euler_mode
   \<and> getMaxNQ RBNodeRotate3 \<noteq> 3
   \<and> (case create ex_base ((0, (0, 0, 0), Mat33_diag 0), ex_frame, ex_frame)
              ex_mass ex_frame ex_frame Orientation False (0, 0, 0) of
         Inr (node, nextU, nextUSq, nextQ) \<Rightarrow> sint nextQ
       | Inl e \<Rightarrow> 0) \<noteq> 3
   \<and> (case create ex_base ((0, (0, 0, 0), Mat33_diag 0), ex_frame, ex_frame)
              ex_mass ex_frame ex_frame Free False (0, 2147483640, 0) of
         Inr (node, nextU, nextUSq, nextQ) \<Rightarrow> sint nextUSq
       | Inl e \<Rightarrow> 0) \<noteq> 2147483640 + 6 * 6
   \<and> (case create ex_base ((0, (0, 0, 0), Mat33_diag 0), ex_frame, ex_frame)
              ex_mass ex_frame ex_frame ThisIsGround False (5, 7, 11) of
         Inr (node, nextU, nextUSq, nextQ) \<Rightarrow> uIndex node
       | Inl e \<Rightarrow> 5) \<noteq> 5"
  by (simp add: create_def RigidBodyNodeSpec_new_def updateSlots_def getUseEulerAngles_def
      ex_euler_mode_def ex_base_def)

text \<open>
  Claim C9, amended. The pairs (\<^verbatim>\<open>getDOF\<close>, \<^verbatim>\<open>getMaxNQ\<close>) are Ground (0,0), Cartesian
  (3,3), Sliding (1,1), Torsion (1,1), Universal (2,2), Ball (3,4), diatom (5,5) and Free
  (6,7), whatever the mode; the count that depends on the mode is \<^verbatim>\<open>getNQ\<close>, 3 or 4 for
  Ball and 6 or 7 for Free. For each of the seven joint types with a
  \<^verbatim>\<open>RigidBodyNodeSpec\<close> class, \<^verbatim>\<open>create\<close> returns a node of that class whose \<open>u\<close>,
  \<open>uSq\<close> and \<open>q\<close> indices are the three counters, and adds \<open>dof\<close>, \<open>dof * dof\<close> and \<open>maxNQ\<close>
  to the counters in 32-bit arithmetic: a counter whose sum stays below \<open>2^31\<close> advances by
  exactly that amount, and a larger sum wraps around. For Ground it returns the node of the
  base constructor as a ground body, which has not seen the counters, and leaves the
  counters as they are. A reversed joint and the types Cylinder, Planar, Gimbal and Weld
  are errors.
\<close>

theorem create_table_and_slots:
  "map (\<lambda>c. (getDOF c, getMaxNQ c))
       [RBGroundBody, RBNodeTranslate, RBNodeSlider, RBNodeTorsion, RBNodeRotate2,
        RBNodeRotate3, RBNodeTranslateRotate2, RBNodeTranslateRotate3]
     = [(0, 0), (3, 3), (1, 1), (1, 1), (2, 2), (3, 4), (5, 5), (6, 7)]
   \<and> getNQ RBNodeRotate3 mv = (if getUseEulerAngles mv then 3 else 4)
   \<and> getNQ RBNodeTranslateRotate3 mv = (if getUseEulerAngles mv then 6 else 7)
   \<and> (\<forall>c. c \<noteq> RBNodeRotate3 \<and> c \<noteq> RBNodeTranslateRotate3 \<longrightarrow> getNQ c mv = getDOF c)
   \<and> (type \<in> {Torsion, Universal, Orientation, Cartesian, FreeLine, Free, Sliding} \<longrightarrow>
        (\<exists>node nU nUSq nQ.
           create base ground_args m X_PJb X_BJ type False (nextU, nextUSq, nextQ)
             = Inr (node, (nU, nUSq, nQ))
           \<and> nodeClass node = (case type of Torsion \<Rightarrow> RBNodeTorsion | Universal \<Rightarrow> RBNodeRotate2
                 | Orientation \<Rightarrow> RBNodeRotate3 | Cartesian \<Rightarrow> RBNodeTranslate
                 | FreeLine \<Rightarrow> RBNodeTranslateRotate2 | Free \<Rightarrow> RBNodeTranslateRotate3
                 | _ \<Rightarrow> RBNodeSlider)
           \<and> uIndex node = sint nextU \<and> uSqIndex node = sint nextUSq \<and> qIndex node = sint nextQ
           \<and> nU = nextU + of_nat (dof node)
           \<and> nUSq = nextUSq + of_nat (dof node) * of_nat (dof node)
           \<and> nQ = nextQ + of_nat (getMaxNQ (nodeClass node))
           \<and> (sint nextU + int (dof node) < 2147483648 \<longrightarrow>
                 sint nU = sint nextU + int (dof node))
           \<and> (sint nextUSq + int (dof node) * int (dof node) < 2147483648 \<longrightarrow>
                 sint nUSq = sint nextUSq + int (dof node) * int (dof node))
           \<and> (sint nextQ + int (getMaxNQ (nodeClass node)) < 2147483648 \<longrightarrow>
                 sint nQ = sint nextQ + int (getMaxNQ (nodeClass node)))))
   \<and> create base ground_args m X_PJb X_BJ ThisIsGround False (nextU, nextUSq, nextQ)
        = Inr ((case ground_args of (gm, gp, gb) \<Rightarrow> base gm gp gb)\<lparr>nodeClass := RBGroundBody\<rparr>,
               (nextU, nextUSq, nextQ))
   \<and> create base ground_args m X_PJb X_BJ type True (nextU, nextUSq, nextQ) = Inl ReversedJoint
   \<and> (type \<in> {Cylinder, Planar, Gimbal, Weld} \<longrightarrow>
        create base ground_args m X_PJb X_BJ type False (nextU, nextUSq, nextQ)
          = Inl UnsupportedJointType)"
proof -
  have nq: "\<forall>c. c \<noteq> RBNodeRotate3 \<and> c \<noteq> RBNodeTranslateRotate3 \<longrightarrow> getNQ c mv = getDOF c"
  proof (intro allI impI)
    fix c assume "c \<noteq> RBNodeRotate3 \<and> c \<noteq> RBNodeTranslateRotate3"
    then show "getNQ c mv = getDOF c" by (cases c) simp_all
  qed
  have new: "\<exists>node nU nUSq nQ.
           RigidBodyNodeSpec_new base c m X_PJb X_BJ (nextU, nextUSq, nextQ) = (node, (nU, nUSq, nQ))
           \<and> nodeClass node = c
           \<and> uIndex node = sint nextU \<and> uSqIndex node = sint nextUSq \<and> qIndex node = sint nextQ
           \<and> nU = nextU + of_nat (dof node)
           \<and> nUSq = nextUSq + of_nat (dof node) * of_nat (dof node)
           \<and> nQ = nextQ + of_nat (getMaxNQ (nodeClass node))
           \<and> (sint nextU + int (dof node) < 2147483648 \<longrightarrow>
                 sint nU = sint nextU + int (dof node))
           \<and> (sint nextUSq + int (dof node) * int (dof node) < 2147483648 \<longrightarrow>
                 sint nUSq = sint nextUSq + int (dof node) * int (dof node))
           \<and> (sint nextQ + int (getMaxNQ (nodeClass node)) < 2147483648 \<longrightarrow>
                 sint nQ = sint nextQ + int (getMaxNQ (nodeClass node)))" for c
  proof -
    obtain nU nUSq nQ where u: "updateSlots c (nextU, nextUSq, nextQ) = (nU, nUSq, nQ)"
      by (cases "updateSlots c (nextU, nextUSq, nextQ)") auto
    show ?thesis
      using u updateSlots_no_overflow[OF u]
      by (simp add: RigidBodyNodeSpec_new_def dof_def) (auto simp: updateSlots_def)
  qed
  have spec: "type \<in> {Torsion, Universal, Orientation, Cartesian, FreeLine, Free, Sliding} \<Longrightarrow>
      create base ground_args m X_PJb X_BJ type False (nextU, nextUSq, nextQ)
        = Inr (RigidBodyNodeSpec_new base
                 (case type of Torsion \<Rightarrow> RBNodeTorsion | Universal \<Rightarrow> RBNodeRotate2
                 | Orientation \<Rightarrow> RBNodeRotate3 | Cartesian \<Rightarrow> RBNodeTranslate
                 | FreeLine \<Rightarrow> RBNodeTranslateRotate2 | Free \<Rightarrow> RBNodeTranslateRotate3
                 | _ \<Rightarrow> RBNodeSlider) m X_PJb X_BJ (nextU, nextUSq, nextQ))"
    by (auto simp: create_def)
  have rest: "create base ground_args m X_PJb X_BJ ThisIsGround False (nextU, nextUSq, nextQ)
        = Inr ((case ground_args of (gm, gp, gb) \<Rightarrow> base gm gp gb)\<lparr>nodeClass := RBGroundBody\<rparr>,
               (nextU, nextUSq, nextQ))"
    "create base ground_args m X_PJb X_BJ type True (nextU, nextUSq, nextQ) = Inl ReversedJoint"
    "type \<in> {Cylinder, Planar, Gimbal, Weld} \<longrightarrow>
        create base ground_args m X_PJb X_BJ type False (nextU, nextUSq, nextQ)
          = Inl UnsupportedJointType"
    by (auto simp: create_def)
  have main: "type \<in> {Torsion, Universal, Orientation, Cartesian, FreeLine, Free, Sliding} \<longrightarrow>
        (\<exists>node nU nUSq nQ.
           create base ground_args m X_PJb X_BJ type False (nextU, nextUSq, nextQ)
             = Inr (node, (nU, nUSq, nQ))
           \<and> nodeClass node = (case type of Torsion \<Rightarrow> RBNodeTorsion | Universal \<Rightarrow> RBNodeRotate2
                 | Orientation \<Rightarrow> RBNodeRotate3 | Cartesian \<Rightarrow> RBNodeTranslate
                 | FreeLine \<Rightarrow> RBNodeTranslateRotate2 | Free \<Rightarrow> RBNodeTranslateRotate3
                 | _ \<Rightarrow> RBNodeSlider)
           \<and> uIndex node = sint nextU \<and> uSqIndex node = sint nextUSq \<and> qIndex node = sint nextQ
           \<and> nU = nextU + of_nat (dof node)
           \<and> nUSq = nextUSq + of_nat (dof node) * of_nat (dof node)
           \<and> nQ = nextQ + of_nat (getMaxNQ (nodeClass node))
           \<and> (sint nextU + int (dof node) < 2147483648 \<longrightarrow>
                 sint nU = sint nextU + int (dof node))
           \<and> (sint nextUSq + int (dof node) * int (dof node) < 2147483648 \<longrightarrow>
                 sint nUSq = sint nextUSq + int (dof node) * int (dof node))
           \<and> (sint nextQ + int (getMaxNQ (nodeClass node)) < 2147483648 \<longrightarrow>
                 sint nQ = sint nextQ + int (getMaxNQ (nodeClass node))))"
  proof (intro impI)
    assume t: "type \<in> {Torsion, Universal, Orientation, Cartesian, FreeLine, Free, Sliding}"
    show "\<exists>node nU nUSq nQ.
           create base ground_args m X_PJb X_BJ type False (nextU, nextUSq, nextQ)
             = Inr (node, (nU, nUSq, nQ))
           \<and> nodeClass node = (case type of Torsion \<Rightarrow> RBNodeTorsion | Universal \<Rightarrow> RBNodeRotate2
                 | Orientation \<Rightarrow> RBNodeRotate3 | Cartesian \<Rightarrow> RBNodeTranslate
                 | FreeLine \<Rightarrow> RBNodeTranslateRotate2 | Free \<Rightarrow> RBNodeTranslateRotate3
                 | _ \<Rightarrow> RBNodeSlider)
           \<and> uIndex node = sint nextU \<and> uSqIndex node = sint nextUSq \<and> qIndex node = sint nextQ
           \<and> nU = nextU + of_nat (dof node)
           \<and> nUSq = nextUSq + of_nat (dof node) * of_nat (dof node)
           \<and> nQ = nextQ + of_nat (getMaxNQ (nodeClass node))
           \<and> (sint nextU + int (dof node) < 2147483648 \<longrightarrow>
                 sint nU = sint nextU + int (dof node))
           \<and> (sint nextUSq + int (dof node) * int (dof node) < 2147483648 \<longrightarrow>
                 sint nUSq = sint nextUSq + int (dof node) * int (dof node))
           \<and> (sint nextQ + int (getMaxNQ (nodeClass node)) < 2147483648 \<longrightarrow>
                 sint nQ = sint nextQ + int (getMaxNQ (nodeClass node)))"
      unfolding spec[OF t] sum.inject by (rule new)
  qed
  have tab: "map (\<lambda>c. (getDOF c, getMaxNQ c))
       [RBGroundBody, RBNodeTranslate, RBNodeSlider, RBNodeTorsion, RBNodeRotate2,
        RBNodeRotate3, RBNodeTranslateRotate2, RBNodeTranslateRotate3]
     = [(0, 0), (3, 3), (1, 1), (1, 1), (2, 2), (3, 4), (5, 5), (6, 7)]"
    "getNQ RBNodeRotate3 mv = (if getUseEulerAngles mv then 3 else 4)"
    "getNQ RBNodeTranslateRotate3 mv = (if getUseEulerAngles mv then 6 else 7)"
    by simp_all
  show ?thesis
    by (intro conjI tab nq main rest)
qed

theorem create_table_and_slots_witness:
  "Orientation \<in> {Torsion, Universal, Orientation, Cartesian, FreeLine, Free, Sliding}
   \<and> Weld \<in> {Cylinder, Planar, Gimbal, Weld}
   \<and> RBNodeTorsion \<noteq> RBNodeRotate3 \<and> RBNodeTorsion \<noteq> RBNodeTranslateRotate3
   \<and> getNQ RBNodeTorsion ex_euler_mode = 1
   \<and> sint (5 :: 32 word) + int (getDOF RBNodeRotate3) < 2147483648
   \<and> sint (7 :: 32 word) + int (getDOF RBNodeRotate3) * int (getDOF RBNodeRotate3) < 2147483648
   \<and> sint (11 :: 32 word) + int (getMaxNQ RBNodeRotate3) < 2147483648
   \<and> (\<exists>node nU nUSq nQ.
         create ex_base ((0, (0, 0, 0), Mat33_diag 0), ex_frame, ex_frame)
                 ex_mass ex_frame ex_frame Orientation False (5, 7, 11) = Inr (node, (nU, nUSq, nQ))
         \<and> nodeClass node = RBNodeRotate3
         \<and> uIndex node = 5 \<and> uSqIndex node = 7 \<and> qIndex node = 11
         \<and> sint nU = 8 \<and> sint nUSq = 16 \<and> sint nQ = 15)
   \<and> create ex_base ((0, (0, 0, 0), Mat33_diag 0), ex_frame, ex_frame)
        ex_mass ex_frame ex_frame Weld False (5, 7, 11) = Inl UnsupportedJointType"
proof -
  note t1 = create_table_and_slots[of ex_euler_mode Orientation ex_base
      "((0, (0, 0, 0), Mat33_diag 0), ex_frame, ex_frame)" ex_mass ex_frame ex_frame 5 7 11]
  note t2 = create_table_and_slots[of ex_euler_mode Weld ex_base
      "((0, (0, 0, 0), Mat33_diag 0), ex_frame, ex_frame)" ex_mass ex_frame ex_frame 5 7 11]
  from t1 obtain node nU nUSq nQ where
    n: "create ex_base ((0, (0, 0, 0), Mat33_diag 0), ex_frame, ex_frame)
          ex_mass ex_frame ex_frame Orientation False (5, 7, 11) = Inr (node, (nU, nUSq, nQ))"
      "nodeClass node = RBNodeRotate3"
      "uIndex node = sint (5 :: 32 word)" "uSqIndex node = sint (7 :: 32 word)"
      "qIndex node = sint (11 :: 32 word)"
      "sint (5 :: 32 word) + int (dof node) < 2147483648 \<longrightarrow>
         sint nU = sint (5 :: 32 word) + int (dof node)"
      "sint (7 :: 32 word) + int (dof node) * int (dof node) < 2147483648 \<longrightarrow>
         sint nUSq = sint (7 :: 32 word) + int (dof node) * int (dof node)"
      "sint (11 :: 32 word) + int (getMaxNQ (nodeClass node)) < 2147483648 \<longrightarrow>
         sint nQ = sint (11 :: 32 word) + int (getMaxNQ (nodeClass node))"
    by auto
  from t1 have nq: "getNQ RBNodeTorsion ex_euler_mode = getDOF RBNodeTorsion" by blast
  from t2 have w: "create ex_base ((0, (0, 0, 0), Mat33_diag 0), ex_frame, ex_frame)
        ex_mass ex_frame ex_frame Weld False (5, 7, 11) = Inl UnsupportedJointType" by simp
  have v: "sint nU = 8" "sint nUSq = 16" "sint nQ = 15"
    using n(2,6,7,8) by (simp_all add: dof_def)
  show ?thesis using n(1-5) v nq w by simp
qed

text \<open>
  Claim C10. For a node other than ground whose parent is node 0,
  \<^verbatim>\<open>calcUDotPass2Outward\<close> returns the same \<^verbatim>\<open>allUDot\<close> and the same entry of \<^verbatim>\<open>allA_GB\<close>
  for the node whatever \<^verbatim>\<open>allA_GB[0]\<close> holds: the parent acceleration is taken as zero, so
  \<open>udot = DI * epsilon\<close> and \<open>A_GB = ~H * udot + coriolisAcceleration\<close>.
\<close>

theorem Pass2_ground_parent:
  "nodeClass n \<noteq> RBGroundBody \<and> parent n = 0 \<longrightarrow>
     (\<forall>x. snd (calcUDotPass2Outward n cc dc allEpsilon (allA_GB(0 := x), allUDot))
            = snd (calcUDotPass2Outward n cc dc allEpsilon (allA_GB, allUDot))
         \<and> fst (calcUDotPass2Outward n cc dc allEpsilon (allA_GB(0 := x), allUDot)) (nodeNum n)
            = fst (calcUDotPass2Outward n cc dc allEpsilon (allA_GB, allUDot)) (nodeNum n))
     \<and> (case calcUDotPass2Outward n cc dc allEpsilon (allA_GB, allUDot) of
          (allA_GB', allUDot') \<Rightarrow>
             fromU n allUDot' = matN_vec (getDI dc n) (fromU n allEpsilon)
           \<and> allA_GB' (nodeNum n) =
               cols_vec (getH cc n) (fromU n allUDot') + getCoriolisAcceleration dc n)"
  by (simp add: calcUDotPass2Outward_def RigidBodyNodeSpec_calcUDotPass2Outward_def Let_def
      SpatialVec_zero vecN_sub_rows_vec_zero fromU_toU_same getDI_def)

theorem Pass2_ground_parent_witness:
  "nodeClass ex_pin \<noteq> RBGroundBody \<and> parent ex_pin = 0
   \<and> snd (calcUDotPass2Outward ex_pin ex_cc ex_dc (\<lambda>j. 6)
            ((\<lambda>k. ((3, 3, 3), (3, 3, 3)))(0 := ((7, 7, 7), (7, 7, 7))), \<lambda>j. 8))
     = snd (calcUDotPass2Outward ex_pin ex_cc ex_dc (\<lambda>j. 6) (\<lambda>k. ((3, 3, 3), (3, 3, 3)), \<lambda>j. 8))
   \<and> fromU ex_pin (snd (calcUDotPass2Outward ex_pin ex_cc ex_dc (\<lambda>j. 6)
                           (\<lambda>k. ((3, 3, 3), (3, 3, 3)), \<lambda>j. 8))) = [3]
   \<and> fst (calcUDotPass2Outward ex_pin ex_cc ex_dc (\<lambda>j. 6) (\<lambda>k. ((3, 3, 3), (3, 3, 3)), \<lambda>j. 8))
        (nodeNum ex_pin) = ((0, 0, 3), (0, 1, 0))"
  using Pass2_ground_parent[of ex_pin ex_cc ex_dc "\<lambda>j. 6" "\<lambda>k. ((3, 3, 3), (3, 3, 3))" "\<lambda>j. 8"]
  by (simp add: ex_defs Let_def getDI_def getH_def getCoriolisAcceleration_def fromU_def
      fromUSq_def dof_def matN_vec_def cols_vec_def zero_prod_def split: prod.splits)

end
